theory Spec2Isabelle
  imports Complex_Main
begin

section \<open>Data model\<close>

text \<open>
  The aerodrome decoder (\<^verbatim>\<open>rotkehlchen/chain/base/modules/aerodrome/decoder.py\<close>)
  reclassifies, in place, the ledger events already decoded for one transaction.
  Python objects mutated in place become values that are passed in and returned;
  the reference a handler keeps to an event of the list (\<^verbatim>\<open>spend_event\<close>,
  \<^verbatim>\<open>receive_event\<close>) becomes the index of that event in the list.

  Names are those of the source, with these exceptions: the methods lose their leading
  underscore (\<^verbatim>\<open>_decode_swap\<close> is \<open>decode_swap\<close>); the field \<^verbatim>\<open>notes\<close> of an event
  is \<open>event_notes\<close> and the field \<^verbatim>\<open>address\<close> of a log is \<open>log_address\<close>, the one
  being a keyword of Isabelle and the other the name of the event's field; the body of
  each \<^verbatim>\<open>for\<close> loop is a function of its own, named after the method.
\<close>

type_synonym ChecksumEvmAddress = string

text \<open>A Python \<^verbatim>\<open>bytes\<close> value: the list of its bytes, each below 256.\<close>

type_synonym bytes = "nat list"

text \<open>
  The members of \<^verbatim>\<open>HistoryEventType\<close> and \<^verbatim>\<open>HistoryEventSubType\<close> that the
  decoder and its tests use. The subtype members \<^verbatim>\<open>SPEND\<close> and \<^verbatim>\<open>RECEIVE\<close> carry the
  suffix \<open>_sub\<close>, since the event type has members of the same name.
\<close>

datatype HistoryEventType =
  TRADE | SPEND | RECEIVE | DEPOSIT | WITHDRAWAL | INFORMATIONAL

datatype HistoryEventSubType =
  NONE | SPEND_sub | RECEIVE_sub | DEPOSIT_ASSET | REMOVE_ASSET
  | RECEIVE_WRAPPED | RETURN_WRAPPED | REWARD | FEE | APPROVE

datatype EvmProduct = POOL | GAUGE

record Balance =
  amount :: rat
  usd_value :: rat

record EvmEvent =
  tx_hash :: string
  sequence_index :: int
  event_type :: HistoryEventType
  event_subtype :: HistoryEventSubType
  asset :: string
  balance :: Balance
  location_label :: "string option"
  event_notes :: "string option"
  counterparty :: "string option"
  product :: "EvmProduct option"
  address :: "ChecksumEvmAddress option"

record EvmTxReceiptLog =
  log_address :: ChecksumEvmAddress
  topics :: "bytes list"
  data :: bytes

record DecodingOutput =
  refresh_balances :: bool

definition DEFAULT_DECODING_OUTPUT :: DecodingOutput where
  "DEFAULT_DECODING_OUTPUT = \<lparr>refresh_balances = False\<rparr>"

subsection \<open>Constants of the module\<close>

definition ROUTER :: ChecksumEvmAddress where
  "ROUTER = ''0xcF77a3Ba9A5CA399B7c97c74d54e5b1Beb874E43''"

definition ADD_LIQUIDITY_EVENT :: bytes where
  "ADD_LIQUIDITY_EVENT =
    [0x4C, 0x20, 0x9B, 0x5F, 0xC8, 0xAD, 0x50, 0x75,
     0x8F, 0x13, 0xE2, 0xE1, 0x08, 0x8B, 0xA5, 0x6A,
     0x56, 0x0D, 0xFF, 0x69, 0x0A, 0x1C, 0x6F, 0xEF,
     0x26, 0x39, 0x4F, 0x4C, 0x03, 0x82, 0x1C, 0x4F]"

definition REMOVE_LIQUIDITY_EVENT :: bytes where
  "REMOVE_LIQUIDITY_EVENT =
    [0x5D, 0x62, 0x4A, 0xA9, 0xC1, 0x48, 0x15, 0x3A,
     0xB3, 0x44, 0x6C, 0x1B, 0x15, 0x4F, 0x66, 0x0E,
     0xE7, 0x70, 0x1E, 0x54, 0x9F, 0xE9, 0xB6, 0x2D,
     0xAB, 0x71, 0x71, 0xB1, 0xC8, 0x0E, 0x6F, 0xA2]"

definition SWAP :: bytes where
  "SWAP =
    [0xB3, 0xE2, 0x77, 0x36, 0x06, 0xAB, 0xFD, 0x36,
     0xB5, 0xBD, 0x91, 0x39, 0x4B, 0x3A, 0x54, 0xD1,
     0x39, 0x83, 0x36, 0xC6, 0x50, 0x05, 0xBA, 0xF7,
     0xBF, 0x7A, 0x05, 0xEF, 0xEF, 0xFA, 0xF7, 0x5B]"

definition GAUGE_DEPOSIT :: bytes where
  "GAUGE_DEPOSIT =
    [0x55, 0x48, 0xC8, 0x37, 0xAB, 0x06, 0x8C, 0xF5,
     0x6A, 0x2C, 0x24, 0x79, 0xDF, 0x08, 0x82, 0xA4,
     0x92, 0x2F, 0xD2, 0x03, 0xED, 0xB7, 0x51, 0x73,
     0x21, 0x83, 0x1D, 0x95, 0x07, 0x8C, 0x5F, 0x62]"

definition GAUGE_WITHDRAW :: bytes where
  "GAUGE_WITHDRAW =
    [0x88, 0x4E, 0xDA, 0xD9, 0xCE, 0x6F, 0xA2, 0x44,
     0x0D, 0x8A, 0x54, 0xCC, 0x12, 0x34, 0x90, 0xEB,
     0x96, 0xD2, 0x76, 0x84, 0x79, 0xD4, 0x9F, 0xF9,
     0xC7, 0x36, 0x61, 0x25, 0xA9, 0x42, 0x43, 0x64]"

definition CLAIM_REWARDS :: bytes where
  "CLAIM_REWARDS =
    [0x1F, 0x89, 0xF9, 0x63, 0x33, 0xD3, 0x13, 0x30,
     0x00, 0xEE, 0x44, 0x74, 0x73, 0x15, 0x1F, 0xA9,
     0x60, 0x65, 0x43, 0x36, 0x8F, 0x02, 0x27, 0x1C,
     0x9D, 0x95, 0xAE, 0x14, 0xF1, 0x3B, 0xCC, 0x67]"

text \<open>
  Constants the module imports; their defining files are not part of the sources at
  hand. The general theorems do not depend on the particular values; the evaluations
  on the concrete transaction show them in the notes and tags.
\<close>

definition CPT_AERODROME :: string where
  "CPT_AERODROME = ''aerodrome''"

definition AERODROME_POOL_PROTOCOL :: string where
  "AERODROME_POOL_PROTOCOL = ''aerodrome_pool''"

definition ZERO_ADDRESS :: ChecksumEvmAddress where
  "ZERO_ADDRESS = ''0x0000000000000000000000000000000000000000''"

subsection \<open>The decoder object\<close>

text \<open>
  \<^verbatim>\<open>__init__\<close> reads the pools and gauges from the cache and derives
  \<^verbatim>\<open>self.protocol_addresses = {ROUTER}.union(self.pools)\<close>.
\<close>

record AerodromeDecoder =
  pools :: "ChecksumEvmAddress set"
  gauges :: "ChecksumEvmAddress set"
  protocol_addresses :: "ChecksumEvmAddress set"

definition AerodromeDecoder_init ::
  "ChecksumEvmAddress set \<Rightarrow> ChecksumEvmAddress set \<Rightarrow> AerodromeDecoder" where
  "AerodromeDecoder_init ps gs =
     \<lparr>pools = ps, gauges = gs, protocol_addresses = {ROUTER} \<union> ps\<rparr>"

text \<open>
  \<^verbatim>\<open>event.address in addresses\<close>: the address of an event is optional, and
  \<^verbatim>\<open>None\<close> is a member of no address set.
\<close>

definition address_in :: "ChecksumEvmAddress option \<Rightarrow> ChecksumEvmAddress set \<Rightarrow> bool" where
  "address_in a addresses = (case a of None \<Rightarrow> False | Some x \<Rightarrow> x \<in> addresses)"

subsection \<open>Token metadata\<close>

text \<open>
  Modelled from the spec: asset resolution and the token metadata store, whose code
  (\<^verbatim>\<open>rotkehlchen.assets\<close>) is not among the sources. The spec's token metadata
  collaborator "resolves an asset reference to a display symbol and to a
  decimal-scaling factor used for amount normalization" and "exposes a write-once
  protocol tag field on token metadata, settable only if currently empty"; an
  unresolvable reference is one whose "asset identifier [is] unknown or of the wrong
  kind", as the docstring of \<^verbatim>\<open>_decode_add_liquidity_events\<close> says too
  (\<^verbatim>\<open>UnknownAsset\<close>, \<^verbatim>\<open>WrongAssetType\<close>). The store maps an asset identifier to
  its metadata.
\<close>

datatype AssetType = FIAT | OWN_CHAIN | EVM_TOKEN

record AssetData =
  asset_type :: AssetType
  symbol :: string
  decimals :: nat
  protocol :: "string option"

type_synonym GlobalDB = "string \<rightharpoonup> AssetData"

datatype error =
  UnknownAsset string
  | WrongAssetType string
  | IndexError

text \<open>Modelled from the spec: a crypto asset is a known asset that is not fiat.\<close>

definition resolve_to_crypto_asset :: "GlobalDB \<Rightarrow> string \<Rightarrow> error + AssetData" where
  "resolve_to_crypto_asset db identifier =
     (case db identifier of
        None \<Rightarrow> Inl (UnknownAsset identifier)
      | Some a \<Rightarrow>
          if asset_type a = FIAT then Inl (WrongAssetType identifier) else Inr a)"

text \<open>Modelled from the spec: an EVM token is a known asset of the token kind.\<close>

definition resolve_to_evm_token :: "GlobalDB \<Rightarrow> string \<Rightarrow> error + AssetData" where
  "resolve_to_evm_token db identifier =
     (case db identifier of
        None \<Rightarrow> Inl (UnknownAsset identifier)
      | Some a \<Rightarrow>
          if asset_type a = EVM_TOKEN then Inr a else Inl (WrongAssetType identifier))"

text \<open>
  Modelled from the spec: \<^verbatim>\<open>set_token_protocol_if_missing\<close>
  (\<^verbatim>\<open>rotkehlchen.assets.utils\<close>, not among the sources), the "set if currently
  unset" operation on the protocol tag of the token stored under \<open>identifier\<close>.
\<close>

definition set_token_protocol_if_missing :: "GlobalDB \<Rightarrow> string \<Rightarrow> string \<Rightarrow> GlobalDB" where
  "set_token_protocol_if_missing db identifier p =
     (case db identifier of
        None \<Rightarrow> db
      | Some a \<Rightarrow>
          (case protocol a of
             None \<Rightarrow> db(identifier \<mapsto> a\<lparr>protocol := Some p\<rparr>)
           | Some _ \<Rightarrow> db))"

text \<open>
  Modelled from the spec: \<^verbatim>\<open>asset_normalized_value\<close>
  (\<^verbatim>\<open>rotkehlchen.chain.ethereum.utils\<close>, not among the sources) "normalizes the raw
  integer to the asset's human-decimal scale". Amounts (\<^verbatim>\<open>FVal\<close>, a decimal number)
  are rationals, compared by value.
\<close>

definition asset_normalized_value :: "int \<Rightarrow> AssetData \<Rightarrow> rat" where
  "asset_normalized_value amnt a = of_int amnt / 10 ^ decimals a"

text \<open>
  Modelled from the spec: \<^verbatim>\<open>hex_or_bytes_to_int\<close> (\<^verbatim>\<open>rotkehlchen.utils.misc\<close>, not
  among the sources) reads "a raw integer amount from the payload": the bytes as an
  unsigned big-endian number.
\<close>

definition hex_or_bytes_to_int :: "bytes \<Rightarrow> int" where
  "hex_or_bytes_to_int bs = foldl (\<lambda>acc b. acc * 256 + int b) 0 bs"

text \<open>
  Two library functions stay parameters of the model: the text of a decimal amount in
  an f-string (\<^verbatim>\<open>FVal.__str__\<close>), and \<^verbatim>\<open>hex_or_bytes_to_address\<close>, which turns a
  topic word into a checksummed address.
\<close>

record libs =
  str_FVal :: "rat \<Rightarrow> string"
  hex_or_bytes_to_address :: "bytes \<Rightarrow> ChecksumEvmAddress"

subsection \<open>State and results\<close>

text \<open>
  What a handler can change: the events of the transaction
  (\<^verbatim>\<open>context.decoded_events\<close>), the token metadata, and the error log. A handler
  returns the state it leaves behind together with its result; an exception is
  \<open>Inl\<close>, and the state beside it holds the mutations made before the raise.
\<close>

record diagnostic =
  diag_tx_hash :: string
  diag_spend_event :: "EvmEvent option"
  diag_receive_event :: "EvmEvent option"

record state =
  decoded_events :: "EvmEvent list"
  globaldb :: GlobalDB
  log_errors :: "diagnostic list"

record DecoderContext =
  tx_log :: EvmTxReceiptLog
  transaction_tx_hash :: string

type_synonym result = "state \<times> (error + DecodingOutput)"

subsection \<open>The event walk\<close>

text \<open>
  \<^verbatim>\<open>for event in decoded_events: body\<close>. The body gets the local variables \<open>l\<close> of
  the enclosing function, the position of the event and the event; it returns the
  locals, the event as it has mutated it, and the exception it raised, if any. An
  exception ends the walk and leaves the later events as they were.
\<close>

fun for_events ::
  "('l \<Rightarrow> nat \<Rightarrow> EvmEvent \<Rightarrow> 'l \<times> EvmEvent \<times> error option) \<Rightarrow>
   'l \<Rightarrow> nat \<Rightarrow> EvmEvent list \<Rightarrow> 'l \<times> EvmEvent list \<times> error option" where
  "for_events body l i [] = (l, [], None)"
| "for_events body l i (event # rest) =
     (case body l i event of
        (l', event', Some err) \<Rightarrow> (l', event' # rest, Some err)
      | (l', event', None) \<Rightarrow>
          (case for_events body l' (Suc i) rest of
             (l'', rest', r) \<Rightarrow> (l'', event' # rest', r)))"


section \<open>The handlers\<close>

text \<open>\<^verbatim>\<open>f'{event.address}'\<close>: the text of an optional address.\<close>

definition str_address :: "ChecksumEvmAddress option \<Rightarrow> string" where
  "str_address a = (case a of None \<Rightarrow> ''None'' | Some x \<Rightarrow> x)"

subsection \<open>Liquidity\<close>

text \<open>
  The body of the loop of \<^verbatim>\<open>_decode_add_liquidity_events\<close>. Its local state is the
  token metadata, which the second branch tags. The arguments of
  \<^verbatim>\<open>set_token_protocol_if_missing\<close> are evaluated after the assignments to the
  event, so a failing \<^verbatim>\<open>resolve_to_evm_token\<close> leaves the event mutated.
\<close>

definition add_liquidity_body ::
  "libs \<Rightarrow> AerodromeDecoder \<Rightarrow> EvmTxReceiptLog \<Rightarrow>
   GlobalDB \<Rightarrow> nat \<Rightarrow> EvmEvent \<Rightarrow> GlobalDB \<times> EvmEvent \<times> error option" where
  "add_liquidity_body lib self txlog db i event =
     (case resolve_to_crypto_asset db (asset event) of
        Inl err \<Rightarrow> (db, event, Some err)
      | Inr crypto_asset \<Rightarrow>
          if event_type event = SPEND \<and> event_subtype event = NONE \<and>
             address_in (address event) (pools self)
          then (db,
                event\<lparr>event_type := DEPOSIT,
                      event_subtype := DEPOSIT_ASSET,
                      counterparty := Some CPT_AERODROME,
                      event_notes := Some (''Deposit '' @ str_FVal lib (amount (balance event))
                        @ '' '' @ symbol crypto_asset @ '' in aerodrome pool ''
                        @ str_address (address event)),
                      product := Some POOL\<rparr>,
                None)
          else if event_type event = RECEIVE \<and> event_subtype event = NONE \<and>
             address event = Some ZERO_ADDRESS
          then
            (let event' =
               event\<lparr>event_subtype := RECEIVE_WRAPPED,
                     counterparty := Some CPT_AERODROME,
                     event_notes := Some (''Receive '' @ str_FVal lib (amount (balance event))
                       @ '' '' @ symbol crypto_asset @ '' after depositing in aerodrome pool ''
                       @ log_address txlog),
                     product := Some POOL\<rparr>
             in case resolve_to_evm_token db (asset event) of
                  Inl err \<Rightarrow> (db, event', Some err)
                | Inr evm_token \<Rightarrow>
                    (set_token_protocol_if_missing db (asset event) AERODROME_POOL_PROTOCOL,
                     event', None))
          else (db, event, None))"

definition decode_add_liquidity_events ::
  "libs \<Rightarrow> AerodromeDecoder \<Rightarrow> EvmTxReceiptLog \<Rightarrow> state \<Rightarrow> result" where
  "decode_add_liquidity_events lib self txlog s =
     (case for_events (add_liquidity_body lib self txlog) (globaldb s) 0 (decoded_events s) of
        (db, events, Some err) \<Rightarrow> (s\<lparr>decoded_events := events, globaldb := db\<rparr>, Inl err)
      | (db, events, None) \<Rightarrow>
          (s\<lparr>decoded_events := events, globaldb := db\<rparr>, Inr DEFAULT_DECODING_OUTPUT))"

text \<open>
  The body of the loop of \<^verbatim>\<open>_decode_remove_liquidity_events\<close>; it has no local
  state.
\<close>

definition remove_liquidity_body ::
  "libs \<Rightarrow> AerodromeDecoder \<Rightarrow> EvmTxReceiptLog \<Rightarrow> GlobalDB \<Rightarrow>
   unit \<Rightarrow> nat \<Rightarrow> EvmEvent \<Rightarrow> unit \<times> EvmEvent \<times> error option" where
  "remove_liquidity_body lib self txlog db l i event =
     (case resolve_to_crypto_asset db (asset event) of
        Inl err \<Rightarrow> (l, event, Some err)
      | Inr crypto_asset \<Rightarrow>
          if event_type event = SPEND \<and> event_subtype event = NONE \<and>
             address_in (address event) (pools self)
          then (l,
                event\<lparr>event_subtype := RETURN_WRAPPED,
                      counterparty := Some CPT_AERODROME,
                      event_notes := Some (''Return '' @ str_FVal lib (amount (balance event))
                        @ '' '' @ symbol crypto_asset),
                      product := Some POOL\<rparr>,
                None)
          else if event_type event = RECEIVE \<and> event_subtype event = NONE \<and>
             address_in (address event) (pools self)
          then (l,
                event\<lparr>event_type := WITHDRAWAL,
                      event_subtype := REMOVE_ASSET,
                      counterparty := Some CPT_AERODROME,
                      event_notes := Some (''Remove '' @ str_FVal lib (amount (balance event))
                        @ '' '' @ symbol crypto_asset @ '' from aerodrome pool ''
                        @ log_address txlog),
                      product := Some POOL\<rparr>,
                None)
          else (l, event, None))"

definition decode_remove_liquidity_events ::
  "libs \<Rightarrow> AerodromeDecoder \<Rightarrow> EvmTxReceiptLog \<Rightarrow> state \<Rightarrow> result" where
  "decode_remove_liquidity_events lib self txlog s =
     (case for_events (remove_liquidity_body lib self txlog (globaldb s)) () 0
             (decoded_events s) of
        (l, events, Some err) \<Rightarrow> (s\<lparr>decoded_events := events\<rparr>, Inl err)
      | (l, events, None) \<Rightarrow> (s\<lparr>decoded_events := events\<rparr>, Inr DEFAULT_DECODING_OUTPUT))"

subsection \<open>Swaps\<close>

text \<open>
  Modelled from the spec: \<^verbatim>\<open>maybe_reshuffle_events\<close>
  (\<^verbatim>\<open>rotkehlchen.chain.evm.decoding.utils\<close>, not among the sources), called with
  \<^verbatim>\<open>ordered_events=[spend_event, receive_event]\<close>, here the positions \<open>first\<close> and
  \<open>second\<close> of the two events in the list. The spec: it "enforces ordering: the
  spend leg must immediately precede the receive leg in the transaction's final event
  sequence, re-splicing the sequence if the upstream order differed, while preserving
  the relative order of all other untouched events". The spec does not say where the
  pair goes when the sequence is re-spliced; the model puts it after the other events.
\<close>

definition maybe_reshuffle_events :: "nat \<Rightarrow> nat \<Rightarrow> EvmEvent list \<Rightarrow> EvmEvent list" where
  "maybe_reshuffle_events first second events_list =
     (if second = Suc first then events_list
      else nths events_list (- {first, second})
           @ [events_list ! first, events_list ! second])"

text \<open>
  The body of the loop of \<^verbatim>\<open>_decode_swap\<close>. Its local state is the pair
  \<^verbatim>\<open>(spend_event, receive_event)\<close>, each \<^verbatim>\<open>None\<close> or the position of an event.
\<close>

definition swap_body ::
  "libs \<Rightarrow> AerodromeDecoder \<Rightarrow> GlobalDB \<Rightarrow> nat option \<times> nat option \<Rightarrow> nat \<Rightarrow> EvmEvent \<Rightarrow>
   (nat option \<times> nat option) \<times> EvmEvent \<times> error option" where
  "swap_body lib self db l i event =
     (case resolve_to_crypto_asset db (asset event) of
        Inl err \<Rightarrow> (l, event, Some err)
      | Inr crypto_asset \<Rightarrow>
          if event_type event = SPEND \<and> event_subtype event = NONE \<and>
             address_in (address event) (protocol_addresses self)
          then ((Some i, snd l),
                event\<lparr>event_type := TRADE,
                      event_subtype := SPEND_sub,
                      counterparty := Some CPT_AERODROME,
                      event_notes := Some (''Swap '' @ str_FVal lib (amount (balance event))
                        @ '' '' @ symbol crypto_asset @ '' in '' @ CPT_AERODROME)\<rparr>,
                None)
          else if event_type event = RECEIVE \<and> event_subtype event = NONE \<and>
             address_in (address event) (protocol_addresses self)
          then ((fst l, Some i),
                event\<lparr>event_type := TRADE,
                      event_subtype := RECEIVE_sub,
                      counterparty := Some CPT_AERODROME,
                      event_notes := Some (''Receive '' @ str_FVal lib (amount (balance event))
                        @ '' '' @ symbol crypto_asset @ '' as the result of a swap in ''
                        @ CPT_AERODROME)\<rparr>,
                None)
          else (l, event, None))"

text \<open>
  \<^verbatim>\<open>log.error\<close> appends one diagnostic, which holds the transaction hash and the
  two events (or \<^verbatim>\<open>None\<close>) that the message prints.
\<close>

definition decode_swap :: "libs \<Rightarrow> AerodromeDecoder \<Rightarrow> DecoderContext \<Rightarrow> state \<Rightarrow> result" where
  "decode_swap lib self context s =
     (case for_events (swap_body lib self (globaldb s)) (None, None) 0 (decoded_events s) of
        (l, events, Some err) \<Rightarrow> (s\<lparr>decoded_events := events\<rparr>, Inl err)
      | ((Some spend_event, Some receive_event), events, None) \<Rightarrow>
          (s\<lparr>decoded_events := maybe_reshuffle_events spend_event receive_event events\<rparr>,
           Inr DEFAULT_DECODING_OUTPUT)
      | ((spend_event, receive_event), events, None) \<Rightarrow>
          (s\<lparr>decoded_events := events,
             log_errors := log_errors s @
               [\<lparr>diag_tx_hash = transaction_tx_hash context,
                 diag_spend_event = map_option (\<lambda>i. events ! i) spend_event,
                 diag_receive_event = map_option (\<lambda>i. events ! i) receive_event\<rparr>]\<rparr>,
           Inr DEFAULT_DECODING_OUTPUT))"

subsection \<open>Dispatch on the topic of a pool log\<close>

text \<open>\<^verbatim>\<open>context.tx_log.topics[0]\<close> raises \<^verbatim>\<open>IndexError\<close> on a log without topics.\<close>

definition decode_pool_events ::
  "libs \<Rightarrow> AerodromeDecoder \<Rightarrow> DecoderContext \<Rightarrow> state \<Rightarrow> result" where
  "decode_pool_events lib self context s =
     (case topics (tx_log context) of
        [] \<Rightarrow> (s, Inl IndexError)
      | topic0 # _ \<Rightarrow>
          if topic0 = REMOVE_LIQUIDITY_EVENT
          then decode_remove_liquidity_events lib self (tx_log context) s
          else if topic0 = ADD_LIQUIDITY_EVENT
          then decode_add_liquidity_events lib self (tx_log context) s
          else if topic0 = SWAP
          then decode_swap lib self context s
          else (s, Inr DEFAULT_DECODING_OUTPUT))"

subsection \<open>Gauges\<close>

text \<open>
  The body of the loop of \<^verbatim>\<open>_decode_gauge_events\<close>. Its local state is the token
  metadata and \<^verbatim>\<open>found_event_modifying_balances\<close>.
\<close>

definition gauge_body ::
  "libs \<Rightarrow> bytes \<Rightarrow> ChecksumEvmAddress \<Rightarrow> ChecksumEvmAddress \<Rightarrow> int \<Rightarrow>
   GlobalDB \<times> bool \<Rightarrow> nat \<Rightarrow> EvmEvent \<Rightarrow> (GlobalDB \<times> bool) \<times> EvmEvent \<times> error option" where
  "gauge_body lib topic0 user_or_contract_address gauge_address raw_amount l i event =
     (case resolve_to_crypto_asset (fst l) (asset event) of
        Inl err \<Rightarrow> (l, event, Some err)
      | Inr crypto_asset \<Rightarrow>
          if location_label event = Some user_or_contract_address \<and>
             address event = Some gauge_address \<and>
             amount (balance event) = asset_normalized_value raw_amount crypto_asset
          then
            (let event1 = event\<lparr>counterparty := Some CPT_AERODROME, product := Some GAUGE\<rparr>
             in if topic0 = GAUGE_DEPOSIT
                then
                  (let event2 =
                     event1\<lparr>event_type := DEPOSIT,
                            event_subtype := DEPOSIT_ASSET,
                            event_notes := Some (''Deposit ''
                              @ str_FVal lib (amount (balance event)) @ '' ''
                              @ symbol crypto_asset @ '' into '' @ gauge_address
                              @ '' aerodrome gauge'')\<rparr>
                   in case resolve_to_evm_token (fst l) (asset event) of
                        Inl err \<Rightarrow> ((fst l, True), event2, Some err)
                      | Inr evm_token \<Rightarrow>
                          ((set_token_protocol_if_missing (fst l) (asset event)
                              AERODROME_POOL_PROTOCOL, True),
                           event2, None))
                else if topic0 = GAUGE_WITHDRAW
                then ((fst l, True),
                      event1\<lparr>event_type := WITHDRAWAL,
                             event_subtype := REMOVE_ASSET,
                             event_notes := Some (''Withdraw ''
                               @ str_FVal lib (amount (balance event)) @ '' ''
                               @ symbol crypto_asset @ '' from '' @ gauge_address
                               @ '' aerodrome gauge'')\<rparr>,
                      None)
                else ((fst l, True),
                      event1\<lparr>event_type := WITHDRAWAL,
                             event_subtype := REWARD,
                             event_notes := Some (''Receive ''
                               @ str_FVal lib (amount (balance event)) @ '' ''
                               @ symbol crypto_asset @ '' rewards from '' @ gauge_address
                               @ '' aerodrome gauge'')\<rparr>,
                      None))
          else (l, event, None))"

text \<open>
  \<^verbatim>\<open>topics[0]\<close> and \<^verbatim>\<open>topics[1]\<close> raise \<^verbatim>\<open>IndexError\<close> on a log with too few
  topics.
\<close>

definition decode_gauge_events ::
  "libs \<Rightarrow> AerodromeDecoder \<Rightarrow> DecoderContext \<Rightarrow> state \<Rightarrow> result" where
  "decode_gauge_events lib self context s =
     (case topics (tx_log context) of
        [] \<Rightarrow> (s, Inl IndexError)
      | topic0 # more_topics \<Rightarrow>
          if topic0 \<notin> set [GAUGE_DEPOSIT, GAUGE_WITHDRAW, CLAIM_REWARDS]
          then (s, Inr DEFAULT_DECODING_OUTPUT)
          else
            (case more_topics of
               [] \<Rightarrow> (s, Inl IndexError)
             | topic1 # _ \<Rightarrow>
                 (case for_events
                         (gauge_body lib topic0 (hex_or_bytes_to_address lib topic1)
                            (log_address (tx_log context))
                            (hex_or_bytes_to_int (data (tx_log context))))
                         (globaldb s, False) 0 (decoded_events s) of
                    ((db, found_event_modifying_balances), events, Some err) \<Rightarrow>
                      (s\<lparr>decoded_events := events, globaldb := db\<rparr>, Inl err)
                  | ((db, found_event_modifying_balances), events, None) \<Rightarrow>
                      (s\<lparr>decoded_events := events, globaldb := db\<rparr>,
                       Inr \<lparr>refresh_balances = found_event_modifying_balances\<rparr>))))"

section \<open>Vocabulary of the statements\<close>

text \<open>
  What the claims say, field by field: the shapes of the events a handler looks for
  and the classification it gives them. These are abbreviations, so every statement
  below unfolds to the fields of the events; the lemmas prove that the loop bodies
  translated from the source compute them.
\<close>

abbreviation spend_candidate :: "AerodromeDecoder \<Rightarrow> EvmEvent \<Rightarrow> bool" where
  "spend_candidate self e \<equiv>
     event_type e = SPEND \<and> event_subtype e = NONE \<and>
     address_in (address e) (protocol_addresses self)"

abbreviation receive_candidate :: "AerodromeDecoder \<Rightarrow> EvmEvent \<Rightarrow> bool" where
  "receive_candidate self e \<equiv>
     event_type e = RECEIVE \<and> event_subtype e = NONE \<and>
     address_in (address e) (protocol_addresses self)"

abbreviation trade_spend :: "libs \<Rightarrow> AssetData \<Rightarrow> EvmEvent \<Rightarrow> EvmEvent" where
  "trade_spend lib a e \<equiv>
     e\<lparr>event_type := TRADE, event_subtype := SPEND_sub,
       counterparty := Some CPT_AERODROME,
       event_notes := Some (''Swap '' @ str_FVal lib (amount (balance e)) @ '' '' @ symbol a
         @ '' in '' @ CPT_AERODROME)\<rparr>"

abbreviation trade_receive :: "libs \<Rightarrow> AssetData \<Rightarrow> EvmEvent \<Rightarrow> EvmEvent" where
  "trade_receive lib a e \<equiv>
     e\<lparr>event_type := TRADE, event_subtype := RECEIVE_sub,
       counterparty := Some CPT_AERODROME,
       event_notes := Some (''Receive '' @ str_FVal lib (amount (balance e)) @ '' '' @ symbol a
         @ '' as the result of a swap in '' @ CPT_AERODROME)\<rparr>"

abbreviation swap_reclassified :: "libs \<Rightarrow> AerodromeDecoder \<Rightarrow> AssetData \<Rightarrow> EvmEvent \<Rightarrow> EvmEvent" where
  "swap_reclassified lib self a e \<equiv>
     (if spend_candidate self e then trade_spend lib a e
      else if receive_candidate self e then trade_receive lib a e
      else e)"

abbreviation crypto_assets :: "GlobalDB \<Rightarrow> EvmEvent list \<Rightarrow> bool" where
  "crypto_assets db evs \<equiv> \<forall>e\<in>set evs. \<exists>a. db (asset e) = Some a \<and> asset_type a \<noteq> FIAT"


abbreviation pool_deposit :: "AerodromeDecoder \<Rightarrow> EvmEvent \<Rightarrow> bool" where
  "pool_deposit self e \<equiv>
     event_type e = SPEND \<and> event_subtype e = NONE \<and> address_in (address e) (pools self)"

abbreviation lp_mint :: "EvmEvent \<Rightarrow> bool" where
  "lp_mint e \<equiv>
     event_type e = RECEIVE \<and> event_subtype e = NONE \<and> address e = Some ZERO_ADDRESS"

abbreviation pool_withdrawal :: "AerodromeDecoder \<Rightarrow> EvmEvent \<Rightarrow> bool" where
  "pool_withdrawal self e \<equiv>
     event_type e = RECEIVE \<and> event_subtype e = NONE \<and> address_in (address e) (pools self)"

abbreviation add_liquidity_reclassified ::
  "libs \<Rightarrow> AerodromeDecoder \<Rightarrow> EvmTxReceiptLog \<Rightarrow> AssetData \<Rightarrow> EvmEvent \<Rightarrow> EvmEvent" where
  "add_liquidity_reclassified lib self txlog a e \<equiv>
     (if pool_deposit self e
      then e\<lparr>event_type := DEPOSIT, event_subtype := DEPOSIT_ASSET,
             counterparty := Some CPT_AERODROME,
             event_notes := Some (''Deposit '' @ str_FVal lib (amount (balance e)) @ '' ''
               @ symbol a @ '' in aerodrome pool '' @ str_address (address e)),
             product := Some POOL\<rparr>
      else if lp_mint e
      then e\<lparr>event_subtype := RECEIVE_WRAPPED,
             counterparty := Some CPT_AERODROME,
             event_notes := Some (''Receive '' @ str_FVal lib (amount (balance e)) @ '' ''
               @ symbol a @ '' after depositing in aerodrome pool '' @ log_address txlog),
             product := Some POOL\<rparr>
      else e)"

abbreviation remove_liquidity_reclassified ::
  "libs \<Rightarrow> AerodromeDecoder \<Rightarrow> EvmTxReceiptLog \<Rightarrow> AssetData \<Rightarrow> EvmEvent \<Rightarrow> EvmEvent" where
  "remove_liquidity_reclassified lib self txlog a e \<equiv>
     (if pool_deposit self e
      then e\<lparr>event_subtype := RETURN_WRAPPED,
             counterparty := Some CPT_AERODROME,
             event_notes := Some (''Return '' @ str_FVal lib (amount (balance e)) @ '' ''
               @ symbol a),
             product := Some POOL\<rparr>
      else if pool_withdrawal self e
      then e\<lparr>event_type := WITHDRAWAL, event_subtype := REMOVE_ASSET,
             counterparty := Some CPT_AERODROME,
             event_notes := Some (''Remove '' @ str_FVal lib (amount (balance e)) @ '' ''
               @ symbol a @ '' from aerodrome pool '' @ log_address txlog),
             product := Some POOL\<rparr>
      else e)"

text \<open>The assets of the events resolve, and those of minted liquidity tokens are EVM tokens.\<close>

abbreviation add_liquidity_assets :: "GlobalDB \<Rightarrow> EvmEvent list \<Rightarrow> bool" where
  "add_liquidity_assets db evs \<equiv>
     \<forall>e\<in>set evs. \<exists>a. db (asset e) = Some a \<and> asset_type a \<noteq> FIAT \<and>
        (lp_mint e \<longrightarrow> asset_type a = EVM_TOKEN)"


abbreviation gauge_match ::
  "ChecksumEvmAddress \<Rightarrow> ChecksumEvmAddress \<Rightarrow> int \<Rightarrow> AssetData \<Rightarrow> EvmEvent \<Rightarrow> bool" where
  "gauge_match account gauge raw a e \<equiv>
     location_label e = Some account \<and> address e = Some gauge \<and>
     amount (balance e) = asset_normalized_value raw a"

abbreviation gauge_reclassified ::
  "libs \<Rightarrow> bytes \<Rightarrow> ChecksumEvmAddress \<Rightarrow> AssetData \<Rightarrow> EvmEvent \<Rightarrow> EvmEvent" where
  "gauge_reclassified lib topic0 gauge a e \<equiv>
     (if topic0 = GAUGE_DEPOSIT
      then e\<lparr>counterparty := Some CPT_AERODROME, product := Some GAUGE,
             event_type := DEPOSIT, event_subtype := DEPOSIT_ASSET,
             event_notes := Some (''Deposit '' @ str_FVal lib (amount (balance e)) @ '' ''
               @ symbol a @ '' into '' @ gauge @ '' aerodrome gauge'')\<rparr>
      else if topic0 = GAUGE_WITHDRAW
      then e\<lparr>counterparty := Some CPT_AERODROME, product := Some GAUGE,
             event_type := WITHDRAWAL, event_subtype := REMOVE_ASSET,
             event_notes := Some (''Withdraw '' @ str_FVal lib (amount (balance e)) @ '' ''
               @ symbol a @ '' from '' @ gauge @ '' aerodrome gauge'')\<rparr>
      else e\<lparr>counterparty := Some CPT_AERODROME, product := Some GAUGE,
             event_type := WITHDRAWAL, event_subtype := REWARD,
             event_notes := Some (''Receive '' @ str_FVal lib (amount (balance e)) @ '' ''
               @ symbol a @ '' rewards from '' @ gauge @ '' aerodrome gauge'')\<rparr>)"

text \<open>
  The assets of the events resolve, and on a deposit those of the matching events are
  EVM tokens.
\<close>

abbreviation gauge_assets ::
  "GlobalDB \<Rightarrow> bytes \<Rightarrow> ChecksumEvmAddress \<Rightarrow> ChecksumEvmAddress \<Rightarrow> int \<Rightarrow> EvmEvent list \<Rightarrow> bool" where
  "gauge_assets db topic0 account gauge raw evs \<equiv>
     \<forall>e\<in>set evs. \<exists>a. db (asset e) = Some a \<and> asset_type a \<noteq> FIAT \<and>
        (topic0 = GAUGE_DEPOSIT \<and> gauge_match account gauge raw a e \<longrightarrow>
           asset_type a = EVM_TOKEN)"

section \<open>Notions used in the proofs\<close>

text \<open>
  The token metadata \<open>db'\<close> comes from \<open>db\<close> by tagging untagged assets with the
  protocol of the aerodrome pools, and by nothing else.
\<close>

definition tagged_from :: "GlobalDB \<Rightarrow> GlobalDB \<Rightarrow> bool" where
  "tagged_from db db' =
     (\<forall>x. db' x = db x \<or>
        (\<exists>a. db x = Some a \<and> protocol a = None \<and>
           db' x = Some (a\<lparr>protocol := Some AERODROME_POOL_PROTOCOL\<rparr>)))"

text \<open>The position of the last element of a list, counted from \<open>i\<close>, that satisfies \<open>P\<close>.\<close>

fun last_index :: "('a \<Rightarrow> bool) \<Rightarrow> nat \<Rightarrow> 'a list \<Rightarrow> nat option \<Rightarrow> nat option" where
  "last_index P i [] acc = acc"
| "last_index P i (x # xs) acc = last_index P (Suc i) xs (if P x then Some i else acc)"

text \<open>The event as the body of the swap loop leaves it.\<close>

definition swap_event :: "libs \<Rightarrow> AerodromeDecoder \<Rightarrow> GlobalDB \<Rightarrow> EvmEvent \<Rightarrow> EvmEvent" where
  "swap_event lib self db e = fst (snd (swap_body lib self db (None, None) 0 e))"


text \<open>An event matches the gauge log, and the event as the gauge loop leaves it.\<close>

definition gauge_hit ::
  "GlobalDB \<Rightarrow> ChecksumEvmAddress \<Rightarrow> ChecksumEvmAddress \<Rightarrow> int \<Rightarrow> EvmEvent \<Rightarrow> bool" where
  "gauge_hit db account gauge raw e =
     (\<exists>a. db (asset e) = Some a \<and> gauge_match account gauge raw a e)"

definition gauge_event ::
  "libs \<Rightarrow> bytes \<Rightarrow> GlobalDB \<Rightarrow> ChecksumEvmAddress \<Rightarrow> ChecksumEvmAddress \<Rightarrow> int \<Rightarrow>
   EvmEvent \<Rightarrow> EvmEvent" where
  "gauge_event lib topic0 db account gauge raw e =
     (if gauge_hit db account gauge raw e
      then gauge_reclassified lib topic0 gauge (the (db (asset e))) e else e)"

section \<open>A concrete transaction\<close>

text \<open>
  The data of the decoder's tests: an account, the WETH/USDbC pool and its gauge, the
  assets, and events as the upstream decoding leaves them.
\<close>

definition ex_user :: ChecksumEvmAddress where
  "ex_user = ''0x15718b9B0DAdE1C17d8329A13bB9553f3B38e172''"

definition ex_pool :: ChecksumEvmAddress where
  "ex_pool = ''0xB4885Bc63399BF5518b994c1d0C153334Ee579D0''"

definition ex_gauge :: ChecksumEvmAddress where
  "ex_gauge = ''0xeca7Ff920E7162334634c721133F3183B83B0323''"

definition ex_lib :: libs where
  "ex_lib =
     \<lparr>str_FVal = (\<lambda>q. if q = 1 / 10000 then ''0.0001''
                     else if q = 163519 / 1000000 then ''0.163519''
                     else ''0.000000004023175857''),
      hex_or_bytes_to_address = (\<lambda>word. ex_user)\<rparr>"

definition ex_self :: AerodromeDecoder where
  "ex_self = AerodromeDecoder_init {ex_pool} {ex_gauge}"

definition ex_db :: GlobalDB where
  "ex_db =
     [''ETH'' \<mapsto> \<lparr>asset_type = OWN_CHAIN, symbol = ''ETH'', decimals = 18, protocol = None\<rparr>,
      ''USDbC'' \<mapsto> \<lparr>asset_type = EVM_TOKEN, symbol = ''USDbC'', decimals = 6, protocol = None\<rparr>,
      ''LP'' \<mapsto> \<lparr>asset_type = EVM_TOKEN, symbol = ''vAMM-WETH/USDbC'', decimals = 18,
                  protocol = None\<rparr>,
      ''EUR'' \<mapsto> \<lparr>asset_type = FIAT, symbol = ''EUR'', decimals = 2, protocol = None\<rparr>]"

definition ex_event ::
  "HistoryEventType \<Rightarrow> HistoryEventSubType \<Rightarrow> string \<Rightarrow> rat \<Rightarrow> ChecksumEvmAddress option \<Rightarrow> EvmEvent" where
  "ex_event t st a q ad =
     \<lparr>tx_hash = ''0x3ff1'', sequence_index = 0, event_type = t, event_subtype = st, asset = a,
      balance = \<lparr>amount = q, usd_value = 0\<rparr>, location_label = Some ex_user,
      event_notes = None, counterparty = None, product = None, address = ad\<rparr>"

definition ex_gas :: EvmEvent where
  "ex_gas = ex_event SPEND FEE ''ETH'' (1 / 100000) None"

definition ex_spend :: EvmEvent where
  "ex_spend = ex_event SPEND NONE ''ETH'' (1 / 10000) (Some ROUTER)"

definition ex_receive :: EvmEvent where
  "ex_receive = ex_event RECEIVE NONE ''USDbC'' (163519 / 1000000) (Some ex_pool)"

definition ex_state :: "EvmEvent list \<Rightarrow> state" where
  "ex_state evs = \<lparr>decoded_events = evs, globaldb = ex_db, log_errors = []\<rparr>"

definition ex_context :: "bytes list \<Rightarrow> DecoderContext" where
  "ex_context tps =
     \<lparr>tx_log = \<lparr>log_address = ex_pool, topics = tps, data = []\<rparr>,
      transaction_tx_hash = ''0x3ff1''\<rparr>"

definition ex_spend_pool :: EvmEvent where
  "ex_spend_pool = ex_event SPEND NONE ''ETH'' (1 / 10000) (Some ex_pool)"

definition ex_classified :: "EvmEvent list" where
  "ex_classified =
     [ex_gas,
      ex_spend\<lparr>event_type := TRADE, event_subtype := SPEND_sub,
        counterparty := Some ''aerodrome'',
        event_notes := Some ''Swap 0.0001 ETH in aerodrome''\<rparr>,
      ex_receive\<lparr>event_type := TRADE, event_subtype := RECEIVE_sub,
        counterparty := Some ''aerodrome'',
        event_notes := Some ''Receive 0.163519 USDbC as the result of a swap in aerodrome''\<rparr>]"

definition ex_lp_amount :: rat where
  "ex_lp_amount = 4023175857 / 1000000000000000000"

definition ex_deposit :: EvmEvent where
  "ex_deposit = ex_event SPEND NONE ''USDbC'' (163519 / 1000000) (Some ex_pool)"

definition ex_lp_receive :: EvmEvent where
  "ex_lp_receive = ex_event RECEIVE NONE ''LP'' ex_lp_amount (Some ZERO_ADDRESS)"

definition ex_lp_return :: EvmEvent where
  "ex_lp_return = ex_event SPEND NONE ''LP'' ex_lp_amount (Some ex_pool)"

definition ex_stake :: EvmEvent where
  "ex_stake = ex_event SPEND NONE ''LP'' ex_lp_amount (Some ex_gauge)"

definition ex_stake_other :: EvmEvent where
  "ex_stake_other =
     ex_event SPEND NONE ''LP'' (4023175858 / 1000000000000000000) (Some ex_gauge)"

definition ex_unknown :: EvmEvent where
  "ex_unknown = ex_event INFORMATIONAL APPROVE ''XYZ'' 1 (Some ROUTER)"

definition ex_topic1 :: bytes where
  "ex_topic1 =
     [0x00, 0x00, 0x00, 0x00, 0x00, 0x00, 0x00, 0x00,
      0x00, 0x00, 0x00, 0x00, 0x15, 0x71, 0x8B, 0x9B,
      0x0D, 0xAD, 0xE1, 0xC1, 0x7D, 0x83, 0x29, 0xA1,
      0x3B, 0xB9, 0x55, 0x3F, 0x3B, 0x38, 0xE1, 0x72]"

definition ex_data :: bytes where
  "ex_data =
     [0x00, 0x00, 0x00, 0x00, 0x00, 0x00, 0x00, 0x00,
      0x00, 0x00, 0x00, 0x00, 0x00, 0x00, 0x00, 0x00,
      0x00, 0x00, 0x00, 0x00, 0x00, 0x00, 0x00, 0x00,
      0x00, 0x00, 0x00, 0x00, 0xEF, 0xCC, 0xCA, 0xB1]"

definition ex_gauge_context :: "bytes \<Rightarrow> DecoderContext" where
  "ex_gauge_context topic0 =
     \<lparr>tx_log = \<lparr>log_address = ex_gauge, topics = [topic0, ex_topic1], data = ex_data\<rparr>,
      transaction_tx_hash = ''0x3ff1''\<rparr>"

definition ex_withdraw :: EvmEvent where
  "ex_withdraw = ex_event RECEIVE NONE ''USDbC'' (163519 / 1000000) (Some ex_pool)"

definition ex_db_tagged :: GlobalDB where
  "ex_db_tagged =
     ex_db(''CRV_LP'' \<mapsto> \<lparr>asset_type = EVM_TOKEN, symbol = ''crvLP'', decimals = 18,
                             protocol = Some ''curve_pool''\<rparr>)"

definition ex_other_lp_receive :: EvmEvent where
  "ex_other_lp_receive = ex_event RECEIVE NONE ''CRV_LP'' 1 (Some ZERO_ADDRESS)"

text \<open>
  A liquidity token coming back from the gauge, as the upstream decoding leaves the
  event and as a gauge withdrawal classifies it.
\<close>

definition ex_unstake :: EvmEvent where
  "ex_unstake = ex_event RECEIVE NONE ''LP'' ex_lp_amount (Some ex_gauge)"

definition ex_unstaked :: EvmEvent where
  "ex_unstaked =
     ex_unstake\<lparr>event_type := WITHDRAWAL, event_subtype := REMOVE_ASSET,
       counterparty := Some ''aerodrome'', product := Some GAUGE,
       event_notes := Some (''Withdraw 0.000000004023175857 vAMM-WETH/USDbC from ''
         @ ex_gauge @ '' aerodrome gauge'')\<rparr>"

section \<open>Lemmas\<close>

subsection \<open>The event walk\<close>

lemma for_events_length:
  "for_events body l i es = (l', es', r) \<Longrightarrow> length es' = length es"
proof (induction es arbitrary: l i l' es' r)
  case Nil
  then show ?case by simp
next
  case (Cons e es)
  obtain l1 e1 r1 where b: "body l i e = (l1, e1, r1)" by (cases "body l i e") auto
  show ?case
  proof (cases r1)
    case None
    obtain l2 es2 r2 where w: "for_events body l1 (Suc i) es = (l2, es2, r2)"
      by (cases "for_events body l1 (Suc i) es") auto
    from Cons.IH[OF w] have "length es2 = length es" .
    then show ?thesis using Cons.prems b None w by auto
  next
    case (Some err)
    then show ?thesis using Cons.prems b by auto
  qed
qed

lemma for_events_map:
  assumes step: "\<And>l i e. I l \<Longrightarrow> Q e \<Longrightarrow> \<exists>l'. body l i e = (l', f e, None) \<and> I l'"
  shows "I l \<Longrightarrow> \<forall>e\<in>set es. Q e \<Longrightarrow> \<exists>l'. for_events body l i es = (l', map f es, None) \<and> I l'"
proof (induction es arbitrary: l i)
  case Nil
  then show ?case by simp
next
  case (Cons e es)
  from step[of l e i] Cons.prems obtain l1 where b: "body l i e = (l1, f e, None)" and i1: "I l1"
    by auto
  from Cons.IH[OF i1, of "Suc i"] Cons.prems obtain l2
    where w: "for_events body l1 (Suc i) es = (l2, map f es, None)" and i2: "I l2"
    by auto
  show ?case using b w i2 by simp
qed

lemma for_events_invariant:
  assumes step: "\<And>l i e l' e' r. I l \<Longrightarrow> body l i e = (l', e', r) \<Longrightarrow> I l'"
  shows "I l \<Longrightarrow> I (fst (for_events body l i es))"
proof (induction es arbitrary: l i)
  case Nil
  then show ?case by simp
next
  case (Cons e es)
  obtain l1 e1 r1 where b: "body l i e = (l1, e1, r1)" by (cases "body l i e") auto
  have i1: "I l1" using step[OF Cons.prems b] .
  show ?case
  proof (cases r1)
    case None
    obtain l2 es2 r2 where w: "for_events body l1 (Suc i) es = (l2, es2, r2)"
      by (cases "for_events body l1 (Suc i) es") auto
    have "I l2" using Cons.IH[OF i1, of "Suc i"] w by simp
    then show ?thesis using b None w by simp
  next
    case (Some err)
    then show ?thesis using b i1 by simp
  qed
qed

lemma for_events_abort:
  assumes fail: "\<And>l i. I l \<Longrightarrow> \<exists>err. body l i e = (l, e, Some err)"
      and step: "\<And>l i x l' x' r. I l \<Longrightarrow> body l i x = (l', x', r) \<Longrightarrow> I l'"
  shows "I l \<Longrightarrow> \<exists>l' pre' err. for_events body l i (pre @ e # post) = (l', pre' @ e # post, Some err)
           \<and> length pre' = length pre"
proof (induction pre arbitrary: l i)
  case Nil
  from fail[OF Nil, of i] obtain err where "body l i e = (l, e, Some err)" by auto
  then show ?case by simp
next
  case (Cons x pre)
  obtain l1 x1 r1 where b: "body l i x = (l1, x1, r1)" by (cases "body l i x") auto
  have i1: "I l1" using step[OF Cons.prems b] .
  show ?case
  proof (cases r1)
    case None
    from Cons.IH[OF i1, of "Suc i"] obtain l2 pre2 err
      where w: "for_events body l1 (Suc i) (pre @ e # post) = (l2, pre2 @ e # post, Some err)"
        and len: "length pre2 = length pre" by auto
    have "for_events body l i ((x # pre) @ e # post) = (l2, (x1 # pre2) @ e # post, Some err)"
      using b None w by simp
    then show ?thesis using len
      by (intro exI[of _ l2] exI[of _ "x1 # pre2"] exI[of _ err]) simp
  next
    case (Some err)
    have "for_events body l i ((x # pre) @ e # post) = (l1, (x1 # pre) @ e # post, Some err)"
      using b Some by simp
    then show ?thesis
      by (intro exI[of _ l1] exI[of _ "x1 # pre"] exI[of _ err]) simp
  qed
qed

lemma for_events_append:
  "for_events body l i pre = (l', pre', None) \<Longrightarrow>
   for_events body l i (pre @ post) =
     (case for_events body l' (i + length pre) post of (l'', post', r) \<Rightarrow> (l'', pre' @ post', r))"
proof (induction pre arbitrary: l i pre')
  case Nil
  then show ?case by (auto split: prod.splits)
next
  case (Cons x pre)
  obtain l1 x1 r1 where b: "body l i x = (l1, x1, r1)" by (cases "body l i x") auto
  from Cons.prems b have r1: "r1 = None" by (auto split: option.splits prod.splits)
  obtain l2 pre2 r2 where w: "for_events body l1 (Suc i) pre = (l2, pre2, r2)"
    by (cases "for_events body l1 (Suc i) pre") auto
  from Cons.prems b r1 w have eqs: "l2 = l'" "pre' = x1 # pre2" "r2 = None" by auto
  from Cons.IH[of l1 "Suc i" pre2] w eqs
  have "for_events body l1 (Suc i) (pre @ post) =
     (case for_events body l' (Suc i + length pre) post of (l'', post', r) \<Rightarrow> (l'', pre2 @ post', r))"
    by simp
  then show ?case using b r1 eqs by (auto split: prod.splits)
qed

subsection \<open>Token metadata\<close>

lemma tagged_from_refl: "tagged_from db db"
  by (simp add: tagged_from_def)

lemma tagged_from_set:
  assumes "tagged_from db db'"
  shows "tagged_from db (set_token_protocol_if_missing db' x AERODROME_POOL_PROTOCOL)"
  unfolding tagged_from_def
proof
  fix y
  let ?db'' = "set_token_protocol_if_missing db' x AERODROME_POOL_PROTOCOL"
  from assms have y: "db' y = db y \<or>
        (\<exists>a. db y = Some a \<and> protocol a = None \<and>
           db' y = Some (a\<lparr>protocol := Some AERODROME_POOL_PROTOCOL\<rparr>))"
    by (simp add: tagged_from_def)
  show "?db'' y = db y \<or>
        (\<exists>a. db y = Some a \<and> protocol a = None \<and>
           ?db'' y = Some (a\<lparr>protocol := Some AERODROME_POOL_PROTOCOL\<rparr>))"
  proof (cases "y = x")
    case False
    then have "?db'' y = db' y"
      by (simp add: set_token_protocol_if_missing_def split: option.splits)
    with y show ?thesis by simp
  next
    case True
    show ?thesis
    proof (cases "db' x")
      case None
      then have "?db'' = db'" by (simp add: set_token_protocol_if_missing_def)
      with y show ?thesis by simp
    next
      case (Some a')
      show ?thesis
      proof (cases "protocol a'")
        case None
        then have upd: "?db'' x = Some (a'\<lparr>protocol := Some AERODROME_POOL_PROTOCOL\<rparr>)"
          using Some by (simp add: set_token_protocol_if_missing_def)
        from y True Some None have "db x = Some a'" by auto
        with upd None True show ?thesis by simp
      next
        case (Some p)
        then have "?db'' = db'" using \<open>db' x = Some a'\<close>
          by (simp add: set_token_protocol_if_missing_def)
        with y show ?thesis by simp
      qed
    qed
  qed
qed

lemma tagged_from_lookup:
  "tagged_from db db' \<Longrightarrow> db x = None \<Longrightarrow> db' x = None"
  "tagged_from db db' \<Longrightarrow> db x = Some a \<Longrightarrow>
     \<exists>a'. db' x = Some a' \<and> asset_type a' = asset_type a \<and> symbol a' = symbol a
        \<and> decimals a' = decimals a"
  by (auto simp: tagged_from_def dest: spec[of _ x])

lemma resolve_crypto_tagged_Inl:
  "tagged_from db db' \<Longrightarrow> resolve_to_crypto_asset db x = Inl err \<Longrightarrow>
   resolve_to_crypto_asset db' x = Inl err"
  by (cases "db x") (auto simp: resolve_to_crypto_asset_def split: if_splits dest: tagged_from_lookup)

lemma resolve_crypto_tagged_Inr:
  "tagged_from db db' \<Longrightarrow> resolve_to_crypto_asset db x = Inr a \<Longrightarrow>
   \<exists>a'. resolve_to_crypto_asset db' x = Inr a' \<and> symbol a' = symbol a \<and> decimals a' = decimals a"
  by (cases "db x") (auto simp: resolve_to_crypto_asset_def split: if_splits dest: tagged_from_lookup)

lemma resolve_token_tagged_Inl:
  "tagged_from db db' \<Longrightarrow> resolve_to_evm_token db x = Inl err \<Longrightarrow>
   resolve_to_evm_token db' x = Inl err"
  by (cases "db x") (auto simp: resolve_to_evm_token_def split: if_splits dest: tagged_from_lookup)

lemma resolve_token_tagged_Inr:
  "tagged_from db db' \<Longrightarrow> resolve_to_evm_token db x = Inr a \<Longrightarrow>
   \<exists>a'. resolve_to_evm_token db' x = Inr a'"
  by (cases "db x") (auto simp: resolve_to_evm_token_def split: if_splits dest: tagged_from_lookup)

lemma add_liquidity_body_tagged:
  assumes t: "tagged_from db db'"
  shows "snd (add_liquidity_body lib self txlog db' i e) = snd (add_liquidity_body lib self txlog db j e)"
    and "tagged_from db (fst (add_liquidity_body lib self txlog db' i e))"
proof -
  show "snd (add_liquidity_body lib self txlog db' i e) = snd (add_liquidity_body lib self txlog db j e)"
  proof (cases "resolve_to_crypto_asset db (asset e)")
    case (Inl err)
    with resolve_crypto_tagged_Inl[OF t Inl] show ?thesis
      by (simp add: add_liquidity_body_def)
  next
    case (Inr a)
    from resolve_crypto_tagged_Inr[OF t Inr] obtain a' where
      a': "resolve_to_crypto_asset db' (asset e) = Inr a'" "symbol a' = symbol a" by auto
    show ?thesis
    proof (cases "resolve_to_evm_token db (asset e)")
      case (Inl err)
      with resolve_token_tagged_Inl[OF t Inl] Inr a' show ?thesis
        by (simp add: add_liquidity_body_def Let_def)
    next
      case tok: (Inr tk)
      from resolve_token_tagged_Inr[OF t tok] obtain tk' where
        "resolve_to_evm_token db' (asset e) = Inr tk'" by auto
      with tok Inr a' show ?thesis
        by (simp add: add_liquidity_body_def Let_def)
    qed
  qed
  show "tagged_from db (fst (add_liquidity_body lib self txlog db' i e))"
    using t tagged_from_set[OF t]
    by (auto simp: add_liquidity_body_def Let_def split: sum.splits)
qed

subsection \<open>The swap handler\<close>

lemma resolve_crypto_Some:
  "db x = Some a \<Longrightarrow> asset_type a \<noteq> FIAT \<Longrightarrow> resolve_to_crypto_asset db x = Inr a"
  by (simp add: resolve_to_crypto_asset_def)

lemma swap_body_ok:
  assumes "db (asset e) = Some a" "asset_type a \<noteq> FIAT"
  shows "swap_body lib self db l i e =
     ((if spend_candidate self e then Some i else fst l,
       if \<not> spend_candidate self e \<and> receive_candidate self e then Some i else snd l),
      swap_reclassified lib self a e, None)"
  using assms by (cases l) (simp add: swap_body_def resolve_to_crypto_asset_def)

lemma swap_event_eq:
  assumes "db (asset e) = Some a" "asset_type a \<noteq> FIAT"
  shows "swap_event lib self db e = swap_reclassified lib self a e"
  unfolding swap_event_def swap_body_ok[where db = db and e = e and a = a, OF assms] by simp

lemma swap_walk:
  "crypto_assets db es \<Longrightarrow>
   for_events (swap_body lib self db) l i es =
     ((last_index (spend_candidate self) i es (fst l),
       last_index (receive_candidate self) i es (snd l)),
      map (swap_event lib self db) es, None)"
proof (induction es arbitrary: l i)
  case Nil
  then show ?case by simp
next
  case (Cons e es)
  from Cons.prems obtain a where a: "db (asset e) = Some a" "asset_type a \<noteq> FIAT" by auto
  from Cons.prems have rest: "crypto_assets db es" by simp
  note b = swap_body_ok[where db = db and e = e and a = a, OF a]
  note ev = swap_event_eq[where db = db and e = e and a = a, OF a]
  show ?case
    unfolding for_events.simps b Cons.IH[OF rest]
    by (simp add: ev)
qed

lemma last_index_None:
  "last_index P i xs acc = None \<longleftrightarrow> acc = None \<and> (\<forall>x\<in>set xs. \<not> P x)"
  by (induction xs arbitrary: i acc) auto

lemma last_index_no_match:
  "\<forall>x\<in>set xs. \<not> P x \<Longrightarrow> last_index P i xs acc = acc"
  by (induction xs arbitrary: i acc) auto

lemma last_index_acc:
  "\<exists>y\<in>set xs. P y \<Longrightarrow> last_index P i xs acc = last_index P i xs acc'"
proof (induction xs arbitrary: i acc acc')
  case Nil
  then show ?case by simp
next
  case (Cons x xs)
  show ?case
  proof (cases "P x")
    case True
    then show ?thesis by simp
  next
    case False
    with Cons.prems have "\<exists>y\<in>set xs. P y" by simp
    from Cons.IH[OF this] False show ?thesis by simp
  qed
qed

lemma last_index_Some:
  "last_index P i xs None = Some j \<Longrightarrow>
   i \<le> j \<and> j < i + length xs \<and> P (xs ! (j - i)) \<and>
   (\<forall>k. j - i < k \<and> k < length xs \<longrightarrow> \<not> P (xs ! k))"
proof (induction xs arbitrary: i)
  case Nil
  then show ?case by simp
next
  case (Cons x xs)
  show ?case
  proof (cases "\<forall>y\<in>set xs. \<not> P y")
    case True
    with Cons.prems have "(if P x then Some i else None) = Some j"
      by (simp add: last_index_no_match)
    then have px: "P x" and ji: "j = i" by (auto split: if_splits)
    have "\<forall>k. 0 < k \<and> k < length (x # xs) \<longrightarrow> \<not> P ((x # xs) ! k)"
      using True by (auto simp: nth_Cons split: nat.splits)
    with px ji show ?thesis by simp
  next
    case False
    then have "last_index P (Suc i) xs (if P x then Some i else None) = last_index P (Suc i) xs None"
      by (intro last_index_acc) simp
    with Cons.prems have "last_index P (Suc i) xs None = Some j" by simp
    from Cons.IH[OF this] have ih: "Suc i \<le> j" "j < Suc i + length xs" "P (xs ! (j - Suc i))"
      "\<forall>k. j - Suc i < k \<and> k < length xs \<longrightarrow> \<not> P (xs ! k)" by auto
    have "j - i = Suc (j - Suc i)" using ih(1) by arith
    then have nth: "(x # xs) ! (j - i) = xs ! (j - Suc i)" by simp
    have later: "\<forall>k. j - i < k \<and> k < length (x # xs) \<longrightarrow> \<not> P ((x # xs) ! k)"
    proof (intro allI impI)
      fix k assume k: "j - i < k \<and> k < length (x # xs)"
      then obtain k' where k': "k = Suc k'" by (cases k) auto
      with k ih(1) have "j - Suc i < k' \<and> k' < length xs" by auto
      with ih(4) have "\<not> P (xs ! k')" by blast
      with k' show "\<not> P ((x # xs) ! k)" by simp
    qed
    from ih nth later show ?thesis by auto
  qed
qed

lemma length_nths_without_two:
  assumes "a < length xs" "b < length xs" "a \<noteq> b"
  shows "length (nths xs (- {a, b})) + 2 = length xs"
proof -
  have "{i. i < length xs \<and> i \<in> - {a, b}} = {..<length xs} - {a, b}" by auto
  then have "length (nths xs (- {a, b})) = card ({..<length xs} - {a, b})"
    by (simp add: length_nths)
  also have "\<dots> = card {..<length xs} - card {a, b}"
    using assms by (intro card_Diff_subset) auto
  also have "\<dots> = length xs - 2" using assms by simp
  finally show ?thesis using assms by arith
qed

lemma maybe_reshuffle_events_adjacent:
  assumes "si < length xs" "ri < length xs" "si \<noteq> ri"
  shows "\<exists>p. Suc p < length (maybe_reshuffle_events si ri xs) \<and>
             maybe_reshuffle_events si ri xs ! p = xs ! si \<and>
             maybe_reshuffle_events si ri xs ! Suc p = xs ! ri \<and>
             nths (maybe_reshuffle_events si ri xs) (- {p, Suc p}) = nths xs (- {si, ri}) \<and>
             length (maybe_reshuffle_events si ri xs) = length xs"
proof (cases "ri = Suc si")
  case True
  then have "maybe_reshuffle_events si ri xs = xs" by (simp add: maybe_reshuffle_events_def)
  with True assms show ?thesis by (intro exI[of _ si]) simp
next
  case False
  let ?A = "nths xs (- {si, ri})"
  let ?m = "length ?A"
  have mr: "maybe_reshuffle_events si ri xs = ?A @ [xs ! si, xs ! ri]"
    using False by (simp add: maybe_reshuffle_events_def)
  have len: "?m + 2 = length xs" using assms by (rule length_nths_without_two)
  have n0: "(?A @ [xs ! si, xs ! ri]) ! ?m = xs ! si" by (simp add: nth_append)
  have n1: "(?A @ [xs ! si, xs ! ri]) ! Suc ?m = xs ! ri" by (simp add: nth_append)
  have all: "nths ?A (- {?m, Suc ?m}) = ?A" by (rule nths_all) auto
  have "nths (?A @ [xs ! si, xs ! ri]) (- {?m, Suc ?m}) = ?A"
    unfolding nths_append all by (simp add: nths_Cons)
  with mr n0 n1 len show ?thesis by (intro exI[of _ ?m]) simp
qed

lemma dispatch_swap:
  "topics (tx_log ctx) = SWAP # more_topics \<Longrightarrow>
   decode_pool_events lib self ctx s = decode_swap lib self ctx s"
  by (simp add: decode_pool_events_def SWAP_def REMOVE_LIQUIDITY_EVENT_def ADD_LIQUIDITY_EVENT_def)

lemma swap_walk_nth:
  assumes "crypto_assets db evs" "i < length evs" "db (asset (evs ! i)) = Some a"
  shows "map (swap_event lib self db) evs ! i = swap_reclassified lib self a (evs ! i)"
proof -
  from assms(1,2) have "\<exists>a. db (asset (evs ! i)) = Some a \<and> asset_type a \<noteq> FIAT"
    using nth_mem by blast
  with assms(3) have "asset_type a \<noteq> FIAT" by simp
  from swap_event_eq[where db = db and e = "evs ! i" and a = a, OF assms(3) this] assms(2)
  show ?thesis by simp
qed

lemma decode_swap_missing:
  assumes ca: "crypto_assets (globaldb s) (decoded_events s)"
      and miss: "\<not> ((\<exists>e\<in>set (decoded_events s). spend_candidate self e) \<and>
                   (\<exists>e\<in>set (decoded_events s). receive_candidate self e))"
  shows "\<exists>d. decode_swap lib self ctx s =
           (s\<lparr>decoded_events := map (swap_event lib self (globaldb s)) (decoded_events s),
              log_errors := log_errors s @ [d]\<rparr>, Inr DEFAULT_DECODING_OUTPUT) \<and>
           diag_tx_hash d = transaction_tx_hash ctx"
proof -
  let ?sp = "last_index (spend_candidate self) 0 (decoded_events s) None"
  let ?rc = "last_index (receive_candidate self) 0 (decoded_events s) None"
  from miss have "?sp = None \<or> ?rc = None" by (auto simp: last_index_None)
  then show ?thesis
    unfolding decode_swap_def swap_walk[OF ca]
    by (cases ?sp; cases ?rc) auto
qed

lemma decode_swap_both:
  assumes ca: "crypto_assets (globaldb s) (decoded_events s)"
      and sp: "\<exists>e\<in>set (decoded_events s). spend_candidate self e"
      and rc: "\<exists>e\<in>set (decoded_events s). receive_candidate self e"
  shows "\<exists>si ri. decode_swap lib self ctx s =
           (s\<lparr>decoded_events := maybe_reshuffle_events si ri
                 (map (swap_event lib self (globaldb s)) (decoded_events s))\<rparr>,
            Inr DEFAULT_DECODING_OUTPUT) \<and>
           si < length (decoded_events s) \<and> ri < length (decoded_events s) \<and>
           spend_candidate self (decoded_events s ! si) \<and>
           receive_candidate self (decoded_events s ! ri) \<and>
           (\<forall>k. si < k \<and> k < length (decoded_events s) \<longrightarrow> \<not> spend_candidate self (decoded_events s ! k)) \<and>
           (\<forall>k. ri < k \<and> k < length (decoded_events s) \<longrightarrow> \<not> receive_candidate self (decoded_events s ! k))"
proof -
  let ?sp = "last_index (spend_candidate self) 0 (decoded_events s) None"
  let ?rc = "last_index (receive_candidate self) 0 (decoded_events s) None"
  from sp obtain si where si: "?sp = Some si" using last_index_None[of "spend_candidate self" 0 "decoded_events s" None] by (cases ?sp) auto
  from rc obtain ri where ri: "?rc = Some ri" using last_index_None[of "receive_candidate self" 0 "decoded_events s" None] by (cases ?rc) auto
  have "decode_swap lib self ctx s =
           (s\<lparr>decoded_events := maybe_reshuffle_events si ri
                 (map (swap_event lib self (globaldb s)) (decoded_events s))\<rparr>,
            Inr DEFAULT_DECODING_OUTPUT)"
    unfolding decode_swap_def swap_walk[OF ca] using si ri by simp
  with last_index_Some[OF si] last_index_Some[OF ri] show ?thesis
    by (intro exI[of _ si] exI[of _ ri]) simp
qed

lemma swap_body_no_candidate:
  assumes "\<not> spend_candidate self e" "\<not> receive_candidate self e"
  shows "\<exists>r. swap_body lib self db l i e = (l, e, r)"
  using assms by (cases "resolve_to_crypto_asset db (asset e)") (auto simp: swap_body_def)

lemma swap_walk_no_candidates:
  "\<forall>e\<in>set es. \<not> spend_candidate self e \<and> \<not> receive_candidate self e \<Longrightarrow>
   \<exists>r. for_events (swap_body lib self db) l i es = (l, es, r)"
proof (induction es arbitrary: i)
  case Nil
  then show ?case by simp
next
  case (Cons e es)
  from Cons.prems have "\<not> spend_candidate self e" "\<not> receive_candidate self e" by auto
  from swap_body_no_candidate[OF this] obtain r where
    b: "swap_body lib self db l i e = (l, e, r)" by blast
  from Cons.IH[of "Suc i"] Cons.prems obtain r' where
    w: "for_events (swap_body lib self db) l (Suc i) es = (l, es, r')" by auto
  show ?case using b w by (cases r) auto
qed

lemma swap_event_not_candidate:
  assumes "db (asset e) = Some a" "asset_type a \<noteq> FIAT"
  shows "\<not> spend_candidate self (swap_event lib self db e) \<and>
         \<not> receive_candidate self (swap_event lib self db e)"
  unfolding swap_event_eq[where db = db and e = e and a = a, OF assms] by simp

lemma set_maybe_reshuffle_events:
  assumes "si < length xs" "ri < length xs"
  shows "set (maybe_reshuffle_events si ri xs) \<subseteq> set xs"
  using assms set_nths_subset[of xs "- {si, ri}"]
  by (auto simp: maybe_reshuffle_events_def)

lemma decode_swap_no_candidates:
  assumes "\<forall>e\<in>set (decoded_events s). \<not> spend_candidate self e \<and> \<not> receive_candidate self e"
  shows "\<exists>r. for_events (swap_body lib self (globaldb s)) (None, None) 0 (decoded_events s)
              = ((None, None), decoded_events s, r)"
    and "decoded_events (fst (decode_swap lib self ctx s)) = decoded_events s"
    and "globaldb (fst (decode_swap lib self ctx s)) = globaldb s"
proof -
  from swap_walk_no_candidates[OF assms] obtain r where
    w: "for_events (swap_body lib self (globaldb s)) (None, None) 0 (decoded_events s)
              = ((None, None), decoded_events s, r)" by blast
  then show "\<exists>r. for_events (swap_body lib self (globaldb s)) (None, None) 0 (decoded_events s)
              = ((None, None), decoded_events s, r)" by blast
  show "decoded_events (fst (decode_swap lib self ctx s)) = decoded_events s"
    unfolding decode_swap_def w by (cases r) auto
  show "globaldb (fst (decode_swap lib self ctx s)) = globaldb s"
    unfolding decode_swap_def w by (cases r) auto
qed

lemma decode_swap_leaves_no_candidates:
  assumes ca: "crypto_assets (globaldb s) (decoded_events s)"
  shows "\<forall>e\<in>set (decoded_events (fst (decode_swap lib self ctx s))).
           \<not> spend_candidate self e \<and> \<not> receive_candidate self e"
proof -
  let ?walked = "map (swap_event lib self (globaldb s)) (decoded_events s)"
  have walked: "\<forall>e\<in>set ?walked. \<not> spend_candidate self e \<and> \<not> receive_candidate self e"
  proof
    fix e' assume "e' \<in> set ?walked"
    then obtain e where e: "e \<in> set (decoded_events s)" "e' = swap_event lib self (globaldb s) e"
      by auto
    from ca e(1) obtain a where "globaldb s (asset e) = Some a" "asset_type a \<noteq> FIAT" by auto
    from swap_event_not_candidate[where db = "globaldb s" and e = e and a = a, OF this] e(2)
    show "\<not> spend_candidate self e' \<and> \<not> receive_candidate self e'" by simp
  qed
  show ?thesis
  proof (cases "(\<exists>e\<in>set (decoded_events s). spend_candidate self e) \<and>
                (\<exists>e\<in>set (decoded_events s). receive_candidate self e)")
    case True
    from decode_swap_both[OF ca, of self lib ctx] True obtain si ri where
      r: "decode_swap lib self ctx s =
           (s\<lparr>decoded_events := maybe_reshuffle_events si ri ?walked\<rparr>, Inr DEFAULT_DECODING_OUTPUT)"
      and lt: "si < length (decoded_events s)" "ri < length (decoded_events s)" by blast
    from lt have "set (maybe_reshuffle_events si ri ?walked) \<subseteq> set ?walked"
      by (intro set_maybe_reshuffle_events) simp_all
    with walked r show ?thesis by auto
  next
    case False
    from decode_swap_missing[OF ca False, of lib ctx] walked show ?thesis by auto
  qed
qed

subsection \<open>The liquidity handlers\<close>

lemma add_liquidity_body_ok:
  assumes "db (asset e) = Some a" "asset_type a \<noteq> FIAT" "lp_mint e \<longrightarrow> asset_type a = EVM_TOKEN"
  shows "snd (add_liquidity_body lib self txlog db i e) =
           (add_liquidity_reclassified lib self txlog a e, None)"
  using assms
  by (simp add: add_liquidity_body_def resolve_to_crypto_asset_def resolve_to_evm_token_def Let_def)

lemma add_liquidity_walk:
  assumes "add_liquidity_assets db es" "tagged_from db db'"
  shows "\<exists>db''. for_events (add_liquidity_body lib self txlog) db' i es =
           (db'', map (\<lambda>e. add_liquidity_reclassified lib self txlog (the (db (asset e))) e) es, None)
           \<and> tagged_from db db''"
proof (rule for_events_map[where I = "tagged_from db"
      and Q = "\<lambda>e. \<exists>a. db (asset e) = Some a \<and> asset_type a \<noteq> FIAT \<and>
                 (lp_mint e \<longrightarrow> asset_type a = EVM_TOKEN)"])
  fix l :: GlobalDB and i :: nat and e :: EvmEvent
  assume t: "tagged_from db l"
    and q: "\<exists>a. db (asset e) = Some a \<and> asset_type a \<noteq> FIAT \<and> (lp_mint e \<longrightarrow> asset_type a = EVM_TOKEN)"
  from q obtain a where a: "db (asset e) = Some a" "asset_type a \<noteq> FIAT"
    "lp_mint e \<longrightarrow> asset_type a = EVM_TOKEN" by blast
  have "snd (add_liquidity_body lib self txlog l i e) =
          (add_liquidity_reclassified lib self txlog (the (db (asset e))) e, None)"
    unfolding add_liquidity_body_tagged(1)[OF t, of lib self txlog i e 0]
    using add_liquidity_body_ok[where db = db and e = e and a = a, OF a] a(1) by simp
  moreover have "tagged_from db (fst (add_liquidity_body lib self txlog l i e))"
    by (rule add_liquidity_body_tagged(2)[OF t])
  ultimately show "\<exists>l'. add_liquidity_body lib self txlog l i e =
      (l', add_liquidity_reclassified lib self txlog (the (db (asset e))) e, None) \<and> tagged_from db l'"
    by (cases "add_liquidity_body lib self txlog l i e") auto
qed (use assms in auto)

lemma remove_liquidity_body_ok:
  assumes "db (asset e) = Some a" "asset_type a \<noteq> FIAT"
  shows "remove_liquidity_body lib self txlog db l i e =
           (l, remove_liquidity_reclassified lib self txlog a e, None)"
  using assms
  by (simp add: remove_liquidity_body_def resolve_to_crypto_asset_def)

lemma remove_liquidity_walk:
  assumes "crypto_assets db es"
  shows "for_events (remove_liquidity_body lib self txlog db) () i es =
           ((), map (\<lambda>e. remove_liquidity_reclassified lib self txlog (the (db (asset e))) e) es, None)"
proof -
  have "\<exists>l'. for_events (remove_liquidity_body lib self txlog db) () i es =
           (l', map (\<lambda>e. remove_liquidity_reclassified lib self txlog (the (db (asset e))) e) es, None)
           \<and> True"
  proof (rule for_events_map[where I = "\<lambda>_. True"
      and Q = "\<lambda>e. \<exists>a. db (asset e) = Some a \<and> asset_type a \<noteq> FIAT"])
    fix l :: unit and i :: nat and e :: EvmEvent
    assume "\<exists>a. db (asset e) = Some a \<and> asset_type a \<noteq> FIAT"
    then obtain a where a: "db (asset e) = Some a" "asset_type a \<noteq> FIAT" by blast
    from remove_liquidity_body_ok[where db = db and e = e and a = a, OF a] a(1)
    show "\<exists>l'. remove_liquidity_body lib self txlog db l i e =
      (l', remove_liquidity_reclassified lib self txlog (the (db (asset e))) e, None) \<and> True"
      by simp
  qed (use assms in auto)
  then show ?thesis by simp
qed

lemma dispatch_add_liquidity:
  "topics (tx_log ctx) = ADD_LIQUIDITY_EVENT # more_topics \<Longrightarrow>
   decode_pool_events lib self ctx s =
     decode_add_liquidity_events lib self (tx_log ctx) s"
  by (simp add: decode_pool_events_def REMOVE_LIQUIDITY_EVENT_def ADD_LIQUIDITY_EVENT_def)

lemma dispatch_remove_liquidity:
  "topics (tx_log ctx) = REMOVE_LIQUIDITY_EVENT # more_topics \<Longrightarrow>
   decode_pool_events lib self ctx s =
     decode_remove_liquidity_events lib self (tx_log ctx) s"
  by (simp add: decode_pool_events_def)

lemma decode_add_liquidity_events_ok:
  assumes "add_liquidity_assets (globaldb s) (decoded_events s)"
  shows "\<exists>db' walked.
           decode_add_liquidity_events lib self txlog s =
             (s\<lparr>decoded_events := walked, globaldb := db'\<rparr>, Inr DEFAULT_DECODING_OUTPUT) \<and>
           length walked = length (decoded_events s) \<and>
           (\<forall>i<length (decoded_events s). \<forall>a.
              globaldb s (asset (decoded_events s ! i)) = Some a \<longrightarrow>
              walked ! i = add_liquidity_reclassified lib self txlog a (decoded_events s ! i))"
proof -
  from add_liquidity_walk[OF assms tagged_from_refl, of lib self txlog 0] obtain db' where
    w: "for_events (add_liquidity_body lib self txlog) (globaldb s) 0 (decoded_events s) =
           (db', map (\<lambda>e. add_liquidity_reclassified lib self txlog (the (globaldb s (asset e))) e)
              (decoded_events s), None)"
    by blast
  show ?thesis
    unfolding decode_add_liquidity_events_def w
    by (intro exI[of _ db'] exI[of _ "map (\<lambda>e. add_liquidity_reclassified lib self txlog
          (the (globaldb s (asset e))) e) (decoded_events s)"]) simp
qed

lemma decode_remove_liquidity_events_ok:
  assumes "crypto_assets (globaldb s) (decoded_events s)"
  shows "\<exists>walked.
           decode_remove_liquidity_events lib self txlog s =
             (s\<lparr>decoded_events := walked\<rparr>, Inr DEFAULT_DECODING_OUTPUT) \<and>
           length walked = length (decoded_events s) \<and>
           (\<forall>i<length (decoded_events s). \<forall>a.
              globaldb s (asset (decoded_events s ! i)) = Some a \<longrightarrow>
              walked ! i = remove_liquidity_reclassified lib self txlog a (decoded_events s ! i))"
  unfolding decode_remove_liquidity_events_def remove_liquidity_walk[OF assms]
  by (intro exI[of _ "map (\<lambda>e. remove_liquidity_reclassified lib self txlog
          (the (globaldb s (asset e))) e) (decoded_events s)"]) simp

subsection \<open>The gauge handler\<close>

lemma gauge_body_ok:
  assumes a: "db (asset e) = Some a" "asset_type a \<noteq> FIAT"
      and tok: "topic0 = GAUGE_DEPOSIT \<and> gauge_match account gauge raw a e \<longrightarrow> asset_type a = EVM_TOKEN"
      and t: "tagged_from db db'"
  shows "gauge_body lib topic0 account gauge raw (db', b) i e =
           ((if gauge_match account gauge raw a e \<and> topic0 = GAUGE_DEPOSIT
             then set_token_protocol_if_missing db' (asset e) AERODROME_POOL_PROTOCOL else db',
             b \<or> gauge_match account gauge raw a e),
            gauge_event lib topic0 db account gauge raw e, None)"
proof -
  from tagged_from_lookup(2)[OF t a(1)] obtain a' where
    a': "db' (asset e) = Some a'" "asset_type a' = asset_type a" "symbol a' = symbol a"
        "decimals a' = decimals a" by blast
  have n: "asset_normalized_value raw a' = asset_normalized_value raw a"
    by (simp add: asset_normalized_value_def a')
  show ?thesis
    using a a' tok n
    by (auto simp: gauge_body_def gauge_event_def gauge_hit_def resolve_to_crypto_asset_def
          resolve_to_evm_token_def Let_def)
qed

lemma gauge_walk:
  assumes "gauge_assets db topic0 account gauge raw es" "tagged_from db db'"
  shows "\<exists>db''. for_events (gauge_body lib topic0 account gauge raw) (db', b) i es =
           ((db'', b \<or> (\<exists>e\<in>set es. gauge_hit db account gauge raw e)),
            map (gauge_event lib topic0 db account gauge raw) es, None)
           \<and> tagged_from db db''
           \<and> ((\<forall>e\<in>set es. \<not> gauge_hit db account gauge raw e) \<longrightarrow> db'' = db')"
  using assms
proof (induction es arbitrary: db' b i)
  case Nil
  then show ?case by simp
next
  case (Cons e es)
  from Cons.prems(1) obtain a where a: "db (asset e) = Some a" "asset_type a \<noteq> FIAT"
    "topic0 = GAUGE_DEPOSIT \<and> gauge_match account gauge raw a e \<longrightarrow> asset_type a = EVM_TOKEN"
    by auto
  from Cons.prems(1) have rest: "gauge_assets db topic0 account gauge raw es" by simp
  let ?db1 = "if gauge_match account gauge raw a e \<and> topic0 = GAUGE_DEPOSIT
             then set_token_protocol_if_missing db' (asset e) AERODROME_POOL_PROTOCOL else db'"
  let ?b1 = "b \<or> gauge_match account gauge raw a e"
  have step: "gauge_body lib topic0 account gauge raw (db', b) i e =
           ((?db1, ?b1), gauge_event lib topic0 db account gauge raw e, None)"
    by (rule gauge_body_ok[where db = db and e = e and a = a, OF a Cons.prems(2)])
  have t1: "tagged_from db ?db1"
    using Cons.prems(2) tagged_from_set[OF Cons.prems(2)] by simp
  have hit: "gauge_hit db account gauge raw e \<longleftrightarrow> gauge_match account gauge raw a e"
    using a(1) by (simp add: gauge_hit_def)
  from Cons.IH[OF rest t1, of ?b1 "Suc i"] obtain db'' where
    w: "for_events (gauge_body lib topic0 account gauge raw) (?db1, ?b1) (Suc i) es =
           ((db'', ?b1 \<or> (\<exists>e\<in>set es. gauge_hit db account gauge raw e)),
            map (gauge_event lib topic0 db account gauge raw) es, None)"
    and t2: "tagged_from db db''"
    and same: "(\<forall>e\<in>set es. \<not> gauge_hit db account gauge raw e) \<longrightarrow> db'' = ?db1"
    by blast
  have "for_events (gauge_body lib topic0 account gauge raw) (db', b) i (e # es) =
           ((db'', b \<or> (\<exists>e\<in>set (e # es). gauge_hit db account gauge raw e)),
            map (gauge_event lib topic0 db account gauge raw) (e # es), None)"
    unfolding for_events.simps step using w hit by auto
  moreover have "(\<forall>e\<in>set (e # es). \<not> gauge_hit db account gauge raw e) \<longrightarrow> db'' = db'"
    using same hit by auto
  ultimately show ?case using t2 by blast
qed

lemma decode_gauge_events_ok:
  assumes tp: "topics (tx_log ctx) = topic0 # topic1 # more_topics"
      and t0: "topic0 \<in> {GAUGE_DEPOSIT, GAUGE_WITHDRAW, CLAIM_REWARDS}"
      and ga: "gauge_assets (globaldb s) topic0 (hex_or_bytes_to_address lib topic1)
                 (log_address (tx_log ctx)) (hex_or_bytes_to_int (data (tx_log ctx)))
                 (decoded_events s)"
  shows "\<exists>db'. decode_gauge_events lib self ctx s =
           (s\<lparr>decoded_events :=
                map (gauge_event lib topic0 (globaldb s) (hex_or_bytes_to_address lib topic1)
                       (log_address (tx_log ctx))
                       (hex_or_bytes_to_int (data (tx_log ctx)))) (decoded_events s),
              globaldb := db'\<rparr>,
            Inr \<lparr>refresh_balances =
                   (\<exists>e\<in>set (decoded_events s).
                      gauge_hit (globaldb s) (hex_or_bytes_to_address lib topic1)
                        (log_address (tx_log ctx))
                        (hex_or_bytes_to_int (data (tx_log ctx))) e)\<rparr>) \<and>
           tagged_from (globaldb s) db' \<and>
           ((\<forall>e\<in>set (decoded_events s).
                \<not> gauge_hit (globaldb s) (hex_or_bytes_to_address lib topic1)
                    (log_address (tx_log ctx))
                    (hex_or_bytes_to_int (data (tx_log ctx))) e) \<longrightarrow> db' = globaldb s)"
proof -
  from gauge_walk[OF ga tagged_from_refl, of lib False 0] obtain db'' where
    w: "for_events (gauge_body lib topic0 (hex_or_bytes_to_address lib topic1)
            (log_address (tx_log ctx)) (hex_or_bytes_to_int (data (tx_log ctx))))
          (globaldb s, False) 0 (decoded_events s) =
           ((db'', False \<or> (\<exists>e\<in>set (decoded_events s).
                      gauge_hit (globaldb s) (hex_or_bytes_to_address lib topic1)
                        (log_address (tx_log ctx))
                        (hex_or_bytes_to_int (data (tx_log ctx))) e)),
            map (gauge_event lib topic0 (globaldb s) (hex_or_bytes_to_address lib topic1)
                       (log_address (tx_log ctx))
                       (hex_or_bytes_to_int (data (tx_log ctx)))) (decoded_events s), None)"
    and t: "tagged_from (globaldb s) db''"
    and same: "(\<forall>e\<in>set (decoded_events s).
                \<not> gauge_hit (globaldb s) (hex_or_bytes_to_address lib topic1)
                    (log_address (tx_log ctx))
                    (hex_or_bytes_to_int (data (tx_log ctx))) e) \<longrightarrow> db'' = globaldb s"
    by blast
  have "decode_gauge_events lib self ctx s =
           (s\<lparr>decoded_events :=
                map (gauge_event lib topic0 (globaldb s) (hex_or_bytes_to_address lib topic1)
                       (log_address (tx_log ctx))
                       (hex_or_bytes_to_int (data (tx_log ctx)))) (decoded_events s),
              globaldb := db''\<rparr>,
            Inr \<lparr>refresh_balances =
                   (\<exists>e\<in>set (decoded_events s).
                      gauge_hit (globaldb s) (hex_or_bytes_to_address lib topic1)
                        (log_address (tx_log ctx))
                        (hex_or_bytes_to_int (data (tx_log ctx))) e)\<rparr>)"
    unfolding decode_gauge_events_def tp using t0 w by auto
  with t same show ?thesis by blast
qed

lemma gauge_event_nth:
  assumes "i < length evs" "db (asset (evs ! i)) = Some a"
  shows "map (gauge_event lib topic0 db account gauge raw) evs ! i =
           (if gauge_match account gauge raw a (evs ! i)
            then gauge_reclassified lib topic0 gauge a (evs ! i) else evs ! i)"
  using assms by (simp add: gauge_event_def gauge_hit_def)

lemma gauge_hit_iff:
  assumes "\<forall>e\<in>set evs. \<exists>a. db (asset e) = Some a \<and> P a e"
  shows "(\<exists>e\<in>set evs. gauge_hit db account gauge raw e) \<longleftrightarrow>
         (\<exists>i<length evs. \<exists>a. db (asset (evs ! i)) = Some a \<and>
            gauge_match account gauge raw a (evs ! i))"
  unfolding gauge_hit_def by (metis in_set_conv_nth)

lemma gauge_event_no_hit:
  "\<forall>e\<in>set evs. \<not> gauge_hit db account gauge raw e \<Longrightarrow>
   map (gauge_event lib topic0 db account gauge raw) evs = evs"
  by (induction evs) (auto simp: gauge_event_def)

lemma gauge_body_tagged:
  assumes "tagged_from db (fst l)"
  shows "tagged_from db (fst (fst (gauge_body lib topic0 account gauge raw l i e)))"
  using assms tagged_from_set[OF assms]
  by (auto simp: gauge_body_def Let_def split: sum.splits)

lemma for_events_prefix_abort:
  assumes "for_events body l i pre = (l', pre', None)"
      and "body l' (i + length pre) e = (l'', e', Some err)"
  shows "for_events body l i (pre @ e # post) = (l'', pre' @ e' # post, Some err)"
  unfolding for_events_append[OF assms(1)] using assms(2) by simp

lemma resolve_crypto_unresolvable:
  "(db x = None \<or> (\<exists>a. db x = Some a \<and> asset_type a = FIAT)) \<longleftrightarrow>
   (\<exists>err. resolve_to_crypto_asset db x = Inl err)"
  by (cases "db x") (auto simp: resolve_to_crypto_asset_def)

subsection \<open>The token metadata after a handler\<close>

lemma decode_add_liquidity_events_tagged:
  "tagged_from (globaldb s) (globaldb (fst (decode_add_liquidity_events lib self txlog s)))"
proof -
  have "tagged_from (globaldb s)
          (fst (for_events (add_liquidity_body lib self txlog) (globaldb s) 0 (decoded_events s)))"
  proof (rule for_events_invariant[where I = "tagged_from (globaldb s)"])
    fix l i e l' e' r
    assume "tagged_from (globaldb s) l" "add_liquidity_body lib self txlog l i e = (l', e', r)"
    with add_liquidity_body_tagged(2)[of "globaldb s" l lib self txlog i e]
    show "tagged_from (globaldb s) l'" by simp
  qed (rule tagged_from_refl)
  then show ?thesis
    by (auto simp: decode_add_liquidity_events_def split: prod.splits option.splits)
qed

lemma decode_remove_liquidity_events_globaldb:
  "globaldb (fst (decode_remove_liquidity_events lib self txlog s)) = globaldb s"
  by (auto simp: decode_remove_liquidity_events_def split: prod.splits option.splits)

lemma decode_swap_globaldb:
  "globaldb (fst (decode_swap lib self ctx s)) = globaldb s"
  by (auto simp: decode_swap_def split: prod.splits option.splits)

lemma decode_pool_events_tagged:
  "tagged_from (globaldb s) (globaldb (fst (decode_pool_events lib self ctx s)))"
  using decode_add_liquidity_events_tagged[of s lib self "tx_log ctx"]
  by (auto simp: decode_pool_events_def decode_remove_liquidity_events_globaldb
        decode_swap_globaldb tagged_from_refl split: list.splits)

lemma decode_gauge_events_tagged:
  "tagged_from (globaldb s) (globaldb (fst (decode_gauge_events lib self ctx s)))"
proof (cases "\<exists>topic0 topic1 more_topics. topics (tx_log ctx) = topic0 # topic1 # more_topics
    \<and> topic0 \<in> set [GAUGE_DEPOSIT, GAUGE_WITHDRAW, CLAIM_REWARDS]")
  case False
  then have "fst (decode_gauge_events lib self ctx s) = s"
    by (auto simp: decode_gauge_events_def split: list.splits)
  then show ?thesis by (simp add: tagged_from_refl)
next
  case True
  then obtain topic0 topic1 more_topics where
    tp: "topics (tx_log ctx) = topic0 # topic1 # more_topics"
    and t0: "topic0 \<in> set [GAUGE_DEPOSIT, GAUGE_WITHDRAW, CLAIM_REWARDS]" by blast
  let ?body = "gauge_body lib topic0 (hex_or_bytes_to_address lib topic1)
                 (log_address (tx_log ctx)) (hex_or_bytes_to_int (data (tx_log ctx)))"
  have "tagged_from (globaldb s)
          (fst (fst (for_events ?body (globaldb s, False) 0 (decoded_events s))))"
  proof (rule for_events_invariant[where I = "\<lambda>l. tagged_from (globaldb s) (fst l)"])
    fix l i e l' e' r
    assume "tagged_from (globaldb s) (fst l)" "?body l i e = (l', e', r)"
    with gauge_body_tagged[of "globaldb s" l lib topic0 _ _ _ i e]
    show "tagged_from (globaldb s) (fst l')" by (metis fst_conv)
  qed (simp add: tagged_from_refl)
  then show ?thesis
    unfolding decode_gauge_events_def tp using t0
    by (auto split: prod.splits option.splits)
qed

subsection \<open>An unresolvable asset\<close>

lemma add_liquidity_body_fails:
  "resolve_to_crypto_asset db' (asset e) = Inl err \<Longrightarrow>
   add_liquidity_body lib self txlog db' i e = (db', e, Some err)"
  by (simp add: add_liquidity_body_def)

lemma remove_liquidity_body_fails:
  "resolve_to_crypto_asset db (asset e) = Inl err \<Longrightarrow>
   remove_liquidity_body lib self txlog db l i e = (l, e, Some err)"
  by (simp add: remove_liquidity_body_def)

lemma swap_body_fails:
  "resolve_to_crypto_asset db (asset e) = Inl err \<Longrightarrow>
   swap_body lib self db l i e = (l, e, Some err)"
  by (simp add: swap_body_def)

lemma gauge_body_fails:
  "resolve_to_crypto_asset (fst l) (asset e) = Inl err \<Longrightarrow>
   gauge_body lib topic0 account gauge raw l i e = (l, e, Some err)"
  by (simp add: gauge_body_def)

lemma add_liquidity_walk_abort:
  assumes "resolve_to_crypto_asset db (asset e) = Inl err"
  shows "\<exists>db' pre' err'.
           for_events (add_liquidity_body lib self txlog) db i (pre @ e # post) =
             (db', pre' @ e # post, Some err') \<and> length pre' = length pre"
proof (rule for_events_abort[where I = "tagged_from db"])
  fix l :: GlobalDB and i :: nat
  assume "tagged_from db l"
  from add_liquidity_body_fails[OF resolve_crypto_tagged_Inl[OF this assms]]
  show "\<exists>err. add_liquidity_body lib self txlog l i e = (l, e, Some err)" by blast
next
  fix l i x l' x' r
  assume "tagged_from db l" "add_liquidity_body lib self txlog l i x = (l', x', r)"
  with add_liquidity_body_tagged(2)[of db l lib self txlog i x]
  show "tagged_from db l'" by simp
qed (rule tagged_from_refl)

lemma remove_liquidity_walk_abort:
  assumes "resolve_to_crypto_asset db (asset e) = Inl err"
  shows "\<exists>l' pre' err'.
           for_events (remove_liquidity_body lib self txlog db) l i (pre @ e # post) =
             (l', pre' @ e # post, Some err') \<and> length pre' = length pre"
proof (rule for_events_abort[where I = "\<lambda>_. True"])
  fix l :: unit and i :: nat
  from remove_liquidity_body_fails[OF assms]
  show "\<exists>err. remove_liquidity_body lib self txlog db l i e = (l, e, Some err)" by blast
qed simp_all

lemma swap_walk_abort:
  assumes "resolve_to_crypto_asset db (asset e) = Inl err"
  shows "\<exists>l' pre' err'.
           for_events (swap_body lib self db) l i (pre @ e # post) =
             (l', pre' @ e # post, Some err') \<and> length pre' = length pre"
proof (rule for_events_abort[where I = "\<lambda>_. True"])
  fix l :: "nat option \<times> nat option" and i :: nat
  from swap_body_fails[OF assms]
  show "\<exists>err. swap_body lib self db l i e = (l, e, Some err)" by blast
qed simp_all

lemma gauge_walk_abort:
  assumes "resolve_to_crypto_asset db (asset e) = Inl err"
  shows "\<exists>l' pre' err'.
           for_events (gauge_body lib topic0 account gauge raw) (db, b) i (pre @ e # post) =
             (l', pre' @ e # post, Some err') \<and> length pre' = length pre"
proof (rule for_events_abort[where I = "\<lambda>l. tagged_from db (fst l)"])
  fix l :: "GlobalDB \<times> bool" and i :: nat
  assume "tagged_from db (fst l)"
  from gauge_body_fails[OF resolve_crypto_tagged_Inl[OF this assms]]
  show "\<exists>err. gauge_body lib topic0 account gauge raw l i e = (l, e, Some err)" by blast
next
  fix l i x l' x' r
  assume "tagged_from db (fst l)" "gauge_body lib topic0 account gauge raw l i x = (l', x', r)"
  with gauge_body_tagged[of db l lib topic0 account gauge raw i x]
  show "tagged_from db (fst l')" by simp
qed (simp add: tagged_from_refl)

lemma decode_swap_error:
  "for_events (swap_body lib self (globaldb s)) (None, None) 0 (decoded_events s) =
     (l, events, Some err) \<Longrightarrow>
   decode_swap lib self ctx s = (s\<lparr>decoded_events := events\<rparr>, Inl err)"
  by (auto simp: decode_swap_def split: prod.splits option.splits)

lemma decode_pool_events_abort:
  assumes tp: "topics (tx_log ctx) = topic0 # more_topics"
      and t0: "topic0 \<in> {ADD_LIQUIDITY_EVENT, REMOVE_LIQUIDITY_EVENT, SWAP}"
      and ev: "decoded_events s = pre @ e # post"
      and un: "resolve_to_crypto_asset (globaldb s) (asset e) = Inl err"
  shows "(\<exists>err'. snd (decode_pool_events lib self ctx s) = Inl err') \<and>
         drop (length pre) (decoded_events (fst (decode_pool_events lib self ctx s))) = e # post"
proof -
  consider (rem) "topic0 = REMOVE_LIQUIDITY_EVENT" | (add) "topic0 = ADD_LIQUIDITY_EVENT"
    | (swap) "topic0 = SWAP" using t0 by blast
  then show ?thesis
  proof cases
    case rem
    from remove_liquidity_walk_abort[OF un, of lib self "tx_log ctx" "()" 0 pre post]
    obtain l' pre' err' where
      w: "for_events (remove_liquidity_body lib self (tx_log ctx) (globaldb s)) () 0
            (pre @ e # post) = (l', pre' @ e # post, Some err')" and len: "length pre' = length pre"
      by blast
    show ?thesis
      unfolding dispatch_remove_liquidity[OF tp[unfolded rem]]
        decode_remove_liquidity_events_def ev w
      using len by simp
  next
    case add
    from add_liquidity_walk_abort[OF un, of lib self "tx_log ctx" 0 pre post]
    obtain db' pre' err' where
      w: "for_events (add_liquidity_body lib self (tx_log ctx)) (globaldb s) 0
            (pre @ e # post) = (db', pre' @ e # post, Some err')" and len: "length pre' = length pre"
      by blast
    show ?thesis
      unfolding dispatch_add_liquidity[OF tp[unfolded add]]
        decode_add_liquidity_events_def ev w
      using len by simp
  next
    case swap
    from swap_walk_abort[OF un, of lib self "(None, None)" 0 pre post]
    obtain l' pre' err' where
      w: "for_events (swap_body lib self (globaldb s)) (None, None) 0
            (pre @ e # post) = (l', pre' @ e # post, Some err')" and len: "length pre' = length pre"
      by blast
    from decode_swap_error[of lib self s l' "pre' @ e # post" err' ctx] w ev
    have "decode_swap lib self ctx s = (s\<lparr>decoded_events := pre' @ e # post\<rparr>, Inl err')"
      by simp
    then show ?thesis
      unfolding dispatch_swap[OF tp[unfolded swap]]
      using len by simp
  qed
qed

lemma decode_gauge_events_abort:
  assumes tp: "topics (tx_log ctx) = topic0 # topic1 # more_topics"
      and t0: "topic0 \<in> {GAUGE_DEPOSIT, GAUGE_WITHDRAW, CLAIM_REWARDS}"
      and ev: "decoded_events s = pre @ e # post"
      and un: "resolve_to_crypto_asset (globaldb s) (asset e) = Inl err"
  shows "(\<exists>err'. snd (decode_gauge_events lib self ctx s) = Inl err') \<and>
         drop (length pre) (decoded_events (fst (decode_gauge_events lib self ctx s))) = e # post"
proof -
  from gauge_walk_abort[OF un, of lib topic0 "hex_or_bytes_to_address lib topic1"
      "log_address (tx_log ctx)" "hex_or_bytes_to_int (data (tx_log ctx))" False 0 pre post]
  obtain l' pre' err' where
    w: "for_events (gauge_body lib topic0 (hex_or_bytes_to_address lib topic1)
            (log_address (tx_log ctx)) (hex_or_bytes_to_int (data (tx_log ctx))))
          (globaldb s, False) 0 (pre @ e # post) = (l', pre' @ e # post, Some err')"
    and len: "length pre' = length pre"
    by blast
  show ?thesis
    unfolding decode_gauge_events_def tp ev using t0 w len
    by (cases l') auto
qed

subsection \<open>The events before the failing one\<close>

lemma add_liquidity_walk_tagged:
  assumes "for_events (add_liquidity_body lib self txlog) db i es = (db', es', r)"
  shows "tagged_from db db'"
proof -
  have "tagged_from db (fst (for_events (add_liquidity_body lib self txlog) db i es))"
  proof (rule for_events_invariant[where I = "tagged_from db"])
    fix l i e l' e' r
    assume "tagged_from db l" "add_liquidity_body lib self txlog l i e = (l', e', r)"
    with add_liquidity_body_tagged(2)[of db l lib self txlog i e]
    show "tagged_from db l'" by simp
  qed (rule tagged_from_refl)
  with assms show ?thesis by simp
qed

lemma gauge_walk_tagged:
  assumes "for_events (gauge_body lib topic0 account gauge raw) (db, b) i es = ((db', b'), es', r)"
  shows "tagged_from db db'"
proof -
  have "tagged_from db
          (fst (fst (for_events (gauge_body lib topic0 account gauge raw) (db, b) i es)))"
  proof (rule for_events_invariant[where I = "\<lambda>l. tagged_from db (fst l)"])
    fix l i e l' e' r
    assume "tagged_from db (fst l)" "gauge_body lib topic0 account gauge raw l i e = (l', e', r)"
    with gauge_body_tagged[of db l lib topic0 account gauge raw i e]
    show "tagged_from db (fst l')" by simp
  qed (simp add: tagged_from_refl)
  with assms show ?thesis by simp
qed

lemma decode_add_liquidity_events_prefix:
  assumes ev: "decoded_events s = pre @ e # post"
      and un: "resolve_to_crypto_asset (globaldb s) (asset e) = Inl err"
      and ok: "decode_add_liquidity_events lib self txlog (s\<lparr>decoded_events := pre\<rparr>) = (s1, Inr out)"
  shows "decode_add_liquidity_events lib self txlog s =
           (s1\<lparr>decoded_events := decoded_events s1 @ e # post\<rparr>, Inl err)"
proof -
  obtain db1 pre' r where
    w: "for_events (add_liquidity_body lib self txlog) (globaldb s) 0 pre = (db1, pre', r)"
    by (cases "for_events (add_liquidity_body lib self txlog) (globaldb s) 0 pre") auto
  from ok w have r: "r = None" and s1: "s1 = s\<lparr>decoded_events := pre', globaldb := db1\<rparr>"
    by (auto simp: decode_add_liquidity_events_def split: option.splits)
  from add_liquidity_walk_tagged[OF w] have t: "tagged_from (globaldb s) db1" .
  have "for_events (add_liquidity_body lib self txlog) (globaldb s) 0 (pre @ e # post) =
          (db1, pre' @ e # post, Some err)"
    by (rule for_events_prefix_abort[OF w[unfolded r]])
       (rule add_liquidity_body_fails[OF resolve_crypto_tagged_Inl[OF t un]])
  then show ?thesis
    unfolding decode_add_liquidity_events_def ev s1 by simp
qed

lemma decode_remove_liquidity_events_prefix:
  assumes ev: "decoded_events s = pre @ e # post"
      and un: "resolve_to_crypto_asset (globaldb s) (asset e) = Inl err"
      and ok: "decode_remove_liquidity_events lib self txlog (s\<lparr>decoded_events := pre\<rparr>) = (s1, Inr out)"
  shows "decode_remove_liquidity_events lib self txlog s =
           (s1\<lparr>decoded_events := decoded_events s1 @ e # post\<rparr>, Inl err)"
proof -
  obtain l1 pre' r where
    w: "for_events (remove_liquidity_body lib self txlog (globaldb s)) () 0 pre = (l1, pre', r)"
    by (cases "for_events (remove_liquidity_body lib self txlog (globaldb s)) () 0 pre") auto
  from ok w have r: "r = None" and s1: "s1 = s\<lparr>decoded_events := pre'\<rparr>"
    by (auto simp: decode_remove_liquidity_events_def split: option.splits)
  have "for_events (remove_liquidity_body lib self txlog (globaldb s)) () 0 (pre @ e # post) =
          (l1, pre' @ e # post, Some err)"
    by (rule for_events_prefix_abort[OF w[unfolded r]])
       (rule remove_liquidity_body_fails[OF un])
  then show ?thesis
    unfolding decode_remove_liquidity_events_def ev s1 by simp
qed

lemma decode_gauge_events_prefix:
  assumes tp: "topics (tx_log ctx) = topic0 # topic1 # more_topics"
      and t0: "topic0 \<in> {GAUGE_DEPOSIT, GAUGE_WITHDRAW, CLAIM_REWARDS}"
      and ev: "decoded_events s = pre @ e # post"
      and un: "resolve_to_crypto_asset (globaldb s) (asset e) = Inl err"
      and ok: "decode_gauge_events lib self ctx (s\<lparr>decoded_events := pre\<rparr>) = (s1, Inr out)"
  shows "decode_gauge_events lib self ctx s =
           (s1\<lparr>decoded_events := decoded_events s1 @ e # post\<rparr>, Inl err)"
proof -
  let ?body = "gauge_body lib topic0 (hex_or_bytes_to_address lib topic1)
                 (log_address (tx_log ctx)) (hex_or_bytes_to_int (data (tx_log ctx)))"
  obtain db1 b1 pre' r where
    w: "for_events ?body (globaldb s, False) 0 pre = ((db1, b1), pre', r)"
    by (cases "for_events ?body (globaldb s, False) 0 pre") auto
  from ok w t0 have r: "r = None" and s1: "s1 = s\<lparr>decoded_events := pre', globaldb := db1\<rparr>"
    by (auto simp: decode_gauge_events_def tp split: option.splits)
  from gauge_walk_tagged[OF w] have t: "tagged_from (globaldb s) db1" .
  have "resolve_to_crypto_asset (fst (db1, b1)) (asset e) = Inl err"
    using resolve_crypto_tagged_Inl[OF t un] by simp
  from gauge_body_fails[OF this]
  have "for_events ?body (globaldb s, False) 0 (pre @ e # post) =
          ((db1, b1), pre' @ e # post, Some err)"
    by (intro for_events_prefix_abort[OF w[unfolded r]])
  then show ?thesis
    unfolding decode_gauge_events_def tp ev s1 using t0 by simp
qed

lemma decode_swap_prefix:
  assumes ev: "decoded_events s = pre @ e # post"
      and un: "resolve_to_crypto_asset (globaldb s) (asset e) = Inl err"
      and ca: "crypto_assets (globaldb s) pre"
  shows "decode_swap lib self ctx s =
           (s\<lparr>decoded_events := map (swap_event lib self (globaldb s)) pre @ e # post\<rparr>, Inl err)"
proof -
  have "for_events (swap_body lib self (globaldb s)) (None, None) 0 (pre @ e # post) =
          ((last_index (spend_candidate self) 0 pre None,
            last_index (receive_candidate self) 0 pre None),
           map (swap_event lib self (globaldb s)) pre @ e # post, Some err)"
    using swap_walk[OF ca, of lib self "(None, None)" 0]
    by (intro for_events_prefix_abort[where l' = "(last_index (spend_candidate self) 0 pre None,
            last_index (receive_candidate self) 0 pre None)"] swap_body_fails[OF un]) simp
  from decode_swap_error[of lib self s _ _ err ctx] this ev show ?thesis by simp
qed

subsection \<open>Evaluating the handlers on the concrete transaction\<close>

lemmas ex_defs = ex_user_def ex_pool_def ex_gauge_def ex_lib_def ex_self_def ex_db_def ex_event_def
  ex_gas_def ex_spend_def ex_receive_def ex_state_def ex_context_def AerodromeDecoder_init_def
  ex_spend_pool_def ex_classified_def
  ROUTER_def address_in_def

lemmas swap_eval = decode_pool_events_def decode_swap_def swap_body_def resolve_to_crypto_asset_def
  maybe_reshuffle_events_def SWAP_def REMOVE_LIQUIDITY_EVENT_def ADD_LIQUIDITY_EVENT_def
  DEFAULT_DECODING_OUTPUT_def CPT_AERODROME_def nths_Cons


lemmas ex_defs2 = ex_lp_amount_def ex_deposit_def ex_lp_receive_def ex_lp_return_def ex_stake_def
  ex_stake_other_def ex_unknown_def ex_gauge_context_def ex_topic1_def ex_data_def ZERO_ADDRESS_def

lemmas liquidity_eval = decode_pool_events_def decode_add_liquidity_events_def
  decode_remove_liquidity_events_def add_liquidity_body_def remove_liquidity_body_def
  resolve_to_crypto_asset_def resolve_to_evm_token_def set_token_protocol_if_missing_def
  SWAP_def REMOVE_LIQUIDITY_EVENT_def ADD_LIQUIDITY_EVENT_def
  DEFAULT_DECODING_OUTPUT_def CPT_AERODROME_def AERODROME_POOL_PROTOCOL_def str_address_def Let_def

lemmas gauge_eval = decode_gauge_events_def gauge_body_def
  resolve_to_crypto_asset_def resolve_to_evm_token_def set_token_protocol_if_missing_def
  asset_normalized_value_def hex_or_bytes_to_int_def
  GAUGE_DEPOSIT_def GAUGE_WITHDRAW_def CLAIM_REWARDS_def
  DEFAULT_DECODING_OUTPUT_def CPT_AERODROME_def AERODROME_POOL_PROTOCOL_def Let_def

lemma ex_raw: "hex_or_bytes_to_int (data (tx_log (ex_gauge_context t))) = 4023175857"
  by (simp add: ex_gauge_context_def ex_data_def hex_or_bytes_to_int_def)


lemmas ex_defs3 = ex_withdraw_def ex_db_tagged_def ex_other_lp_receive_def

lemmas ex_defs4 = ex_unstake_def ex_unstaked_def

section \<open>The claims\<close>

subsection \<open>C1: a swap with a missing leg\<close>

text \<open>
  C1, as amended. A pool log with the \<^verbatim>\<open>SWAP\<close> topic is dispatched on a sequence whose
  assets all resolve and in which no spend candidate or no receive candidate exists.
  Then the handler returns the default output and appends exactly one diagnostic, which
  carries the hash of the transaction; the sequence keeps its length and order; no
  token metadata changes. The events are not all left alone, though: every candidate
  that the scan meets is reclassified to \<^verbatim>\<open>TRADE/SPEND\<close> or \<^verbatim>\<open>TRADE/RECEIVE\<close>
  before the missing leg is noticed, and only the events of neither shape are unchanged.
\<close>

theorem swap_missing_leg:
  assumes "topics (tx_log ctx) = SWAP # more_topics"
      and "crypto_assets (globaldb s) (decoded_events s)"
      and "\<not> ((\<exists>e\<in>set (decoded_events s). spend_candidate self e) \<and>
               (\<exists>e\<in>set (decoded_events s). receive_candidate self e))"
  shows "\<exists>walked d.
           decode_pool_events lib self ctx s =
             (s\<lparr>decoded_events := walked, log_errors := log_errors s @ [d]\<rparr>,
              Inr DEFAULT_DECODING_OUTPUT) \<and>
           diag_tx_hash d = transaction_tx_hash ctx \<and>
           length walked = length (decoded_events s) \<and>
           (\<forall>i<length (decoded_events s). \<forall>a.
              globaldb s (asset (decoded_events s ! i)) = Some a \<longrightarrow>
              walked ! i = swap_reclassified lib self a (decoded_events s ! i))"
proof -
  from decode_swap_missing[OF assms(2,3)] obtain d where
    d: "decode_swap lib self ctx s =
           (s\<lparr>decoded_events := map (swap_event lib self (globaldb s)) (decoded_events s),
              log_errors := log_errors s @ [d]\<rparr>, Inr DEFAULT_DECODING_OUTPUT)"
       "diag_tx_hash d = transaction_tx_hash ctx" by blast
  show ?thesis
    unfolding dispatch_swap[OF assms(1)]
    using d swap_walk_nth[OF assms(2)]
    by (intro exI[of _ "map (swap_event lib self (globaldb s)) (decoded_events s)"] exI[of _ d])
       simp
qed

text \<open>
  The theorem at a sequence of a gas event and one spend through the router: one
  diagnostic, and the spend event carries the notes of a swap.
\<close>

theorem swap_missing_leg_witness:
  "snd (decode_pool_events ex_lib ex_self (ex_context [SWAP]) (ex_state [ex_gas, ex_spend]))
     = Inr DEFAULT_DECODING_OUTPUT \<and>
   map diag_tx_hash (log_errors (fst (decode_pool_events ex_lib ex_self (ex_context [SWAP])
      (ex_state [ex_gas, ex_spend])))) = [''0x3ff1''] \<and>
   map event_notes (decoded_events (fst (decode_pool_events ex_lib ex_self (ex_context [SWAP])
      (ex_state [ex_gas, ex_spend])))) = [None, Some ''Swap 0.0001 ETH in aerodrome'']"
proof -
  have h1: "topics (tx_log (ex_context [SWAP])) = SWAP # []" by (simp add: ex_context_def)
  have h2: "crypto_assets (globaldb (ex_state [ex_gas, ex_spend]))
              (decoded_events (ex_state [ex_gas, ex_spend]))"
    by (simp add: ex_defs)
  have h3: "\<not> ((\<exists>e\<in>set (decoded_events (ex_state [ex_gas, ex_spend])). spend_candidate ex_self e) \<and>
               (\<exists>e\<in>set (decoded_events (ex_state [ex_gas, ex_spend])). receive_candidate ex_self e))"
    by (simp add: ex_defs)
  from swap_missing_leg[OF h1 h2 h3, of ex_lib] show ?thesis
    by (simp add: ex_defs swap_eval)
qed

text \<open>
  C1 as stated fails on that sequence: the only candidate is the \<^verbatim>\<open>SPEND/NONE\<close> event
  sent to the router, there is no \<^verbatim>\<open>RECEIVE\<close> event at all, and after the dispatch the
  spend event is \<^verbatim>\<open>TRADE/SPEND\<close>, not \<^verbatim>\<open>SPEND/NONE\<close>.
\<close>

theorem swap_missing_leg_counterexample:
  "map event_type (decoded_events (ex_state [ex_gas, ex_spend])) = [SPEND, SPEND] \<and>
   map event_subtype (decoded_events (ex_state [ex_gas, ex_spend])) = [FEE, NONE] \<and>
   map event_type (decoded_events (fst (decode_pool_events ex_lib ex_self (ex_context [SWAP])
      (ex_state [ex_gas, ex_spend])))) = [SPEND, TRADE] \<and>
   map event_subtype (decoded_events (fst (decode_pool_events ex_lib ex_self (ex_context [SWAP])
      (ex_state [ex_gas, ex_spend])))) = [FEE, SPEND_sub]"
  by (simp add: ex_defs swap_eval)

subsection \<open>C2: a swap with both legs\<close>

text \<open>
  C2. A pool log with the \<^verbatim>\<open>SWAP\<close> topic is dispatched on a sequence whose assets all
  resolve and which holds a spend candidate (\<^verbatim>\<open>SPEND/NONE\<close>, address among the
  protocol addresses) and a receive candidate (\<^verbatim>\<open>RECEIVE/NONE\<close>, address among the
  protocol addresses). Then the handler returns the default output and logs nothing
  (only the events of the state change). \<open>walked\<close> is the sequence after the scan: a
  spend candidate has become \<^verbatim>\<open>TRADE/SPEND\<close> with the notes "Swap amount symbol in
  aerodrome", a receive candidate \<^verbatim>\<open>TRADE/RECEIVE\<close> with the notes "Receive amount
  symbol as the result of a swap in aerodrome", both with the counterparty set. In the
  final sequence the spend event \<open>walked ! si\<close> sits at a position \<open>p\<close> and the receive
  event \<open>walked ! ri\<close> at \<open>p + 1\<close>, and the other events are in their former order:
  the final sequence without the positions \<open>p\<close>, \<open>p + 1\<close> is the scanned sequence without
  the positions \<open>si\<close>, \<open>ri\<close>. The order of the final sequence is that of the reshuffle
  as the specification words it. The router is a protocol address of every decoder
  that \<^verbatim>\<open>__init__\<close> builds.
\<close>

theorem swap_both_legs:
  assumes "topics (tx_log ctx) = SWAP # more_topics"
      and "crypto_assets (globaldb s) (decoded_events s)"
      and "\<exists>e\<in>set (decoded_events s). spend_candidate self e"
      and "\<exists>e\<in>set (decoded_events s). receive_candidate self e"
  shows "(\<exists>walked final si ri p.
           decode_pool_events lib self ctx s =
             (s\<lparr>decoded_events := final\<rparr>, Inr DEFAULT_DECODING_OUTPUT) \<and>
           length walked = length (decoded_events s) \<and>
           (\<forall>i<length (decoded_events s). \<forall>a.
              globaldb s (asset (decoded_events s ! i)) = Some a \<longrightarrow>
              walked ! i = swap_reclassified lib self a (decoded_events s ! i)) \<and>
           si < length (decoded_events s) \<and> spend_candidate self (decoded_events s ! si) \<and>
           ri < length (decoded_events s) \<and> receive_candidate self (decoded_events s ! ri) \<and>
           length final = length (decoded_events s) \<and> Suc p < length final \<and>
           final ! p = walked ! si \<and> final ! Suc p = walked ! ri \<and>
           nths final (- {p, Suc p}) = nths walked (- {si, ri})) \<and>
         address_in (Some ROUTER) (protocol_addresses (AerodromeDecoder_init ps gs))"
proof -
  let ?walked = "map (swap_event lib self (globaldb s)) (decoded_events s)"
  from decode_swap_both[OF assms(2,3,4)] obtain si ri where
    r: "decode_swap lib self ctx s =
           (s\<lparr>decoded_events := maybe_reshuffle_events si ri ?walked\<rparr>, Inr DEFAULT_DECODING_OUTPUT)"
    and si: "si < length (decoded_events s)" "spend_candidate self (decoded_events s ! si)"
    and ri: "ri < length (decoded_events s)" "receive_candidate self (decoded_events s ! ri)"
    by blast
  from si(2) ri(2) have ne: "si \<noteq> ri" by auto
  from maybe_reshuffle_events_adjacent[of si ?walked ri] si(1) ri(1) ne obtain p where
    p: "Suc p < length (maybe_reshuffle_events si ri ?walked)"
       "maybe_reshuffle_events si ri ?walked ! p = ?walked ! si"
       "maybe_reshuffle_events si ri ?walked ! Suc p = ?walked ! ri"
       "nths (maybe_reshuffle_events si ri ?walked) (- {p, Suc p}) = nths ?walked (- {si, ri})"
       "length (maybe_reshuffle_events si ri ?walked) = length ?walked"
    by auto
  have router: "address_in (Some ROUTER) (protocol_addresses (AerodromeDecoder_init ps gs))"
    by (simp add: address_in_def AerodromeDecoder_init_def)
  have "\<exists>walked final si ri p.
           decode_pool_events lib self ctx s =
             (s\<lparr>decoded_events := final\<rparr>, Inr DEFAULT_DECODING_OUTPUT) \<and>
           length walked = length (decoded_events s) \<and>
           (\<forall>i<length (decoded_events s). \<forall>a.
              globaldb s (asset (decoded_events s ! i)) = Some a \<longrightarrow>
              walked ! i = swap_reclassified lib self a (decoded_events s ! i)) \<and>
           si < length (decoded_events s) \<and> spend_candidate self (decoded_events s ! si) \<and>
           ri < length (decoded_events s) \<and> receive_candidate self (decoded_events s ! ri) \<and>
           length final = length (decoded_events s) \<and> Suc p < length final \<and>
           final ! p = walked ! si \<and> final ! Suc p = walked ! ri \<and>
           nths final (- {p, Suc p}) = nths walked (- {si, ri})"
    unfolding dispatch_swap[OF assms(1)]
    using r si ri p swap_walk_nth[OF assms(2)]
    by (intro exI[of _ ?walked] exI[of _ "maybe_reshuffle_events si ri ?walked"]
          exI[of _ si] exI[of _ ri] exI[of _ p]) simp
  with router show ?thesis by (rule conjI[rotated])
qed

text \<open>
  The theorem at a sequence where the receive event (from a pool) precedes the spend
  event (to the router, a protocol address by construction of the decoder).
\<close>

theorem swap_both_legs_witness:
  "decode_pool_events ex_lib ex_self (ex_context [SWAP]) (ex_state [ex_gas, ex_receive, ex_spend])
     = (ex_state
          [ex_gas,
           ex_spend\<lparr>event_type := TRADE, event_subtype := SPEND_sub,
              counterparty := Some ''aerodrome'',
              event_notes := Some ''Swap 0.0001 ETH in aerodrome''\<rparr>,
           ex_receive\<lparr>event_type := TRADE, event_subtype := RECEIVE_sub,
              counterparty := Some ''aerodrome'',
              event_notes := Some ''Receive 0.163519 USDbC as the result of a swap in aerodrome''\<rparr>],
        Inr DEFAULT_DECODING_OUTPUT)"
proof -
  have h1: "topics (tx_log (ex_context [SWAP])) = SWAP # []" by (simp add: ex_context_def)
  have h2: "crypto_assets (globaldb (ex_state [ex_gas, ex_receive, ex_spend]))
              (decoded_events (ex_state [ex_gas, ex_receive, ex_spend]))"
    by (simp add: ex_defs)
  have h3: "\<exists>e\<in>set (decoded_events (ex_state [ex_gas, ex_receive, ex_spend])). spend_candidate ex_self e"
    by (simp add: ex_defs)
  have h4: "\<exists>e\<in>set (decoded_events (ex_state [ex_gas, ex_receive, ex_spend])). receive_candidate ex_self e"
    by (simp add: ex_defs)
  from swap_both_legs[OF h1 h2 h3 h4, of ex_lib] show ?thesis
    by (simp add: ex_defs swap_eval)
qed

subsection \<open>C3: what the scan collects\<close>

text \<open>
  C3, as amended. On a sequence whose assets all resolve, the scan of the swap handler
  ends with at most one spend event and at most one receive event in hand: of each
  kind the last candidate of the sequence, or none when the sequence has no candidate
  of that kind. It reclassifies every candidate it meets, whether it keeps it or not;
  the events of neither shape are not reclassified.
\<close>

theorem swap_scan_candidates:
  assumes "crypto_assets db evs"
  shows "\<exists>spend_event receive_event walked.
           for_events (swap_body lib self db) (None, None) 0 evs =
             ((spend_event, receive_event), walked, None) \<and>
           (case spend_event of
              None \<Rightarrow> \<forall>e\<in>set evs. \<not> spend_candidate self e
            | Some j \<Rightarrow> j < length evs \<and> spend_candidate self (evs ! j) \<and>
                (\<forall>k. j < k \<and> k < length evs \<longrightarrow> \<not> spend_candidate self (evs ! k))) \<and>
           (case receive_event of
              None \<Rightarrow> \<forall>e\<in>set evs. \<not> receive_candidate self e
            | Some j \<Rightarrow> j < length evs \<and> receive_candidate self (evs ! j) \<and>
                (\<forall>k. j < k \<and> k < length evs \<longrightarrow> \<not> receive_candidate self (evs ! k))) \<and>
           length walked = length evs \<and>
           (\<forall>i<length evs. \<forall>a. db (asset (evs ! i)) = Some a \<longrightarrow>
              walked ! i = swap_reclassified lib self a (evs ! i))"
proof -
  let ?sp = "last_index (spend_candidate self) 0 evs None"
  let ?rc = "last_index (receive_candidate self) 0 evs None"
  have sp: "case ?sp of
              None \<Rightarrow> \<forall>e\<in>set evs. \<not> spend_candidate self e
            | Some j \<Rightarrow> j < length evs \<and> spend_candidate self (evs ! j) \<and>
                (\<forall>k. j < k \<and> k < length evs \<longrightarrow> \<not> spend_candidate self (evs ! k))"
  proof (cases ?sp)
    case None
    then show ?thesis using last_index_None[of "spend_candidate self" 0 evs None] by simp
  next
    case (Some j)
    from last_index_Some[OF Some] Some show ?thesis by simp
  qed
  have rc: "case ?rc of
              None \<Rightarrow> \<forall>e\<in>set evs. \<not> receive_candidate self e
            | Some j \<Rightarrow> j < length evs \<and> receive_candidate self (evs ! j) \<and>
                (\<forall>k. j < k \<and> k < length evs \<longrightarrow> \<not> receive_candidate self (evs ! k))"
  proof (cases ?rc)
    case None
    then show ?thesis using last_index_None[of "receive_candidate self" 0 evs None] by simp
  next
    case (Some j)
    from last_index_Some[OF Some] Some show ?thesis by simp
  qed
  show ?thesis
    using swap_walk[OF assms, of lib self "(None, None)" 0] sp rc swap_walk_nth[OF assms]
    by (intro exI[of _ ?sp] exI[of _ ?rc] exI[of _ "map (swap_event lib self db) evs"]) simp
qed

text \<open>The theorem at a sequence with two spend candidates and one receive candidate.\<close>

theorem swap_scan_candidates_witness:
  "fst (for_events (swap_body ex_lib ex_self ex_db) (None, None) 0
          [ex_spend, ex_gas, ex_spend_pool, ex_receive]) = (Some 2, Some 3) \<and>
   map event_type (fst (snd (for_events (swap_body ex_lib ex_self ex_db) (None, None) 0
          [ex_spend, ex_gas, ex_spend_pool, ex_receive]))) = [TRADE, SPEND, TRADE, TRADE]"
proof -
  have h: "crypto_assets ex_db [ex_spend, ex_gas, ex_spend_pool, ex_receive]"
    by (simp add: ex_defs)
  from swap_scan_candidates[OF h, of ex_lib ex_self] show ?thesis
    by (simp add: ex_defs swap_eval)
qed

text \<open>
  C3 as stated fails. Both events below are \<^verbatim>\<open>SPEND/NONE\<close> with a protocol address
  (the router, a pool) and there is no receive candidate. The scan keeps only the
  second as \<^verbatim>\<open>spend_event\<close> (position 1, the event the diagnostic prints), yet the
  first, which is not part of the collected pair, is reclassified to
  \<^verbatim>\<open>TRADE/SPEND\<close> as well.
\<close>

theorem swap_scan_candidates_counterexample:
  "map event_type [ex_spend, ex_spend_pool] = [SPEND, SPEND] \<and>
   map event_subtype [ex_spend, ex_spend_pool] = [NONE, NONE] \<and>
   map address [ex_spend, ex_spend_pool] = [Some ROUTER, Some ex_pool] \<and>
   fst (for_events (swap_body ex_lib ex_self ex_db) (None, None) 0 [ex_spend, ex_spend_pool])
     = (Some 1, None) \<and>
   map event_type (decoded_events (fst (decode_pool_events ex_lib ex_self (ex_context [SWAP])
      (ex_state [ex_spend, ex_spend_pool])))) = [TRADE, TRADE] \<and>
   map event_subtype (decoded_events (fst (decode_pool_events ex_lib ex_self (ex_context [SWAP])
      (ex_state [ex_spend, ex_spend_pool])))) = [SPEND_sub, SPEND_sub] \<and>
   map diag_spend_event (log_errors (fst (decode_pool_events ex_lib ex_self (ex_context [SWAP])
      (ex_state [ex_spend, ex_spend_pool])))) =
     [Some (ex_spend_pool\<lparr>event_type := TRADE, event_subtype := SPEND_sub,
        counterparty := Some ''aerodrome'',
        event_notes := Some ''Swap 0.0001 ETH in aerodrome''\<rparr>)]"
  by (simp add: ex_defs swap_eval)

subsection \<open>C4: the gauge handler reclassifies exactly the matching events\<close>

text \<open>
  C4. A gauge log whose first topic is \<^verbatim>\<open>GAUGE_DEPOSIT\<close>, \<^verbatim>\<open>GAUGE_WITHDRAW\<close> or
  \<^verbatim>\<open>CLAIM_REWARDS\<close> is dispatched on a sequence on which the walk completes (the
  assets resolve and, for a deposit, the matching events carry EVM tokens). \<open>account\<close>
  is the address in the second topic word, \<open>gauge\<close> the emitter of the log and \<open>raw\<close>
  the integer of the payload. Then the handler returns normally, the sequence keeps its
  length and order, and an event is reclassified if and only if its location label is
  the account, its address is the gauge and its amount equals the raw amount
  normalized to the decimals of its asset: every matching event, wherever it sits,
  gets the counterparty, the product \<^verbatim>\<open>GAUGE\<close> and the type, subtype and notes of the
  topic; an event whose amount differs is what it was.
\<close>

theorem gauge_exact_match:
  assumes "topics (tx_log ctx) = topic0 # topic1 # more_topics"
      and "topic0 \<in> {GAUGE_DEPOSIT, GAUGE_WITHDRAW, CLAIM_REWARDS}"
      and "account = hex_or_bytes_to_address lib topic1"
      and "gauge = log_address (tx_log ctx)"
      and "raw = hex_or_bytes_to_int (data (tx_log ctx))"
      and "gauge_assets (globaldb s) topic0 account gauge raw (decoded_events s)"
  shows "\<exists>s' out.
           decode_gauge_events lib self ctx s = (s', Inr out) \<and>
           length (decoded_events s') = length (decoded_events s) \<and>
           (\<forall>i<length (decoded_events s). \<forall>a.
              globaldb s (asset (decoded_events s ! i)) = Some a \<longrightarrow>
              decoded_events s' ! i =
                (if gauge_match account gauge raw a (decoded_events s ! i)
                 then gauge_reclassified lib topic0 gauge a (decoded_events s ! i)
                 else decoded_events s ! i))"
proof -
  from decode_gauge_events_ok[OF assms(1,2), of s lib self] assms(3-6) obtain db' where
    r: "decode_gauge_events lib self ctx s =
           (s\<lparr>decoded_events :=
                map (gauge_event lib topic0 (globaldb s) account gauge raw) (decoded_events s),
              globaldb := db'\<rparr>,
            Inr \<lparr>refresh_balances =
                   (\<exists>e\<in>set (decoded_events s). gauge_hit (globaldb s) account gauge raw e)\<rparr>)"
    by auto
  have pointwise: "\<forall>i<length (decoded_events s). \<forall>a.
              globaldb s (asset (decoded_events s ! i)) = Some a \<longrightarrow>
              map (gauge_event lib topic0 (globaldb s) account gauge raw) (decoded_events s) ! i =
                (if gauge_match account gauge raw a (decoded_events s ! i)
                 then gauge_reclassified lib topic0 gauge a (decoded_events s ! i)
                 else decoded_events s ! i)"
  proof (intro allI impI)
    fix i a
    assume "i < length (decoded_events s)" "globaldb s (asset (decoded_events s ! i)) = Some a"
    then show "map (gauge_event lib topic0 (globaldb s) account gauge raw) (decoded_events s) ! i =
                (if gauge_match account gauge raw a (decoded_events s ! i)
                 then gauge_reclassified lib topic0 gauge a (decoded_events s ! i)
                 else decoded_events s ! i)"
      by (rule gauge_event_nth[where evs = "decoded_events s" and db = "globaldb s"])
  qed
  show ?thesis
    unfolding r using pointwise
    by (intro exI[of _ "s\<lparr>decoded_events :=
            map (gauge_event lib topic0 (globaldb s) account gauge raw) (decoded_events s),
            globaldb := db'\<rparr>"]
          exI[of _ "\<lparr>refresh_balances =
            (\<exists>e\<in>set (decoded_events s). gauge_hit (globaldb s) account gauge raw e)\<rparr>"])
       simp
qed

text \<open>
  The theorem at a deposit of 4023175857 raw units of an 18-decimal token: both
  events with the amount 0.000000004023175857 are reclassified, the event whose amount
  is larger by one unit of the last decimal place is not.
\<close>

theorem gauge_exact_match_witness:
  "snd (decode_gauge_events ex_lib ex_self (ex_gauge_context GAUGE_DEPOSIT)
          (ex_state [ex_gas, ex_stake, ex_stake_other, ex_stake]))
     = Inr \<lparr>refresh_balances = True\<rparr> \<and>
   map event_type (decoded_events (fst (decode_gauge_events ex_lib ex_self
      (ex_gauge_context GAUGE_DEPOSIT) (ex_state [ex_gas, ex_stake, ex_stake_other, ex_stake]))))
     = [SPEND, DEPOSIT, SPEND, DEPOSIT] \<and>
   map event_subtype (decoded_events (fst (decode_gauge_events ex_lib ex_self
      (ex_gauge_context GAUGE_DEPOSIT) (ex_state [ex_gas, ex_stake, ex_stake_other, ex_stake]))))
     = [FEE, DEPOSIT_ASSET, NONE, DEPOSIT_ASSET]"
proof -
  let ?c = "ex_gauge_context GAUGE_DEPOSIT"
  let ?s = "ex_state [ex_gas, ex_stake, ex_stake_other, ex_stake]"
  have h1: "topics (tx_log ?c) = GAUGE_DEPOSIT # ex_topic1 # []"
    by (simp add: ex_gauge_context_def)
  have h2: "GAUGE_DEPOSIT \<in> {GAUGE_DEPOSIT, GAUGE_WITHDRAW, CLAIM_REWARDS}" by simp
  have h3: "ex_user = hex_or_bytes_to_address ex_lib ex_topic1" by (simp add: ex_lib_def)
  have h4: "ex_gauge = log_address (tx_log ?c)" by (simp add: ex_gauge_context_def)
  have h5: "4023175857 = hex_or_bytes_to_int (data (tx_log ?c))" by (simp add: ex_raw)
  have h6: "gauge_assets (globaldb ?s) GAUGE_DEPOSIT ex_user ex_gauge 4023175857 (decoded_events ?s)"
    by (simp add: ex_defs ex_defs2)
  from gauge_exact_match[OF h1 h2 h3 h4 h5 h6, of ex_self] show ?thesis
    by (simp add: ex_defs ex_defs2 gauge_eval)
qed

subsection \<open>C5: the liquidity handlers\<close>

text \<open>
  C5. On a pool log with the \<^verbatim>\<open>ADD_LIQUIDITY\<close> topic and a sequence on which the
  walk completes (the assets resolve, those received from the zero address as EVM
  tokens), the handler returns the default output and the sequence keeps its length
  and order; every \<^verbatim>\<open>SPEND/NONE\<close> event whose address is a pool has become
  \<^verbatim>\<open>DEPOSIT/DEPOSIT_ASSET\<close> with counterparty, product \<^verbatim>\<open>POOL\<close> and notes, every
  \<^verbatim>\<open>RECEIVE/NONE\<close> event from the zero address has the subtype
  \<^verbatim>\<open>RECEIVE_WRAPPED\<close>, and every other event is unchanged. On a pool log with the
  \<^verbatim>\<open>REMOVE_LIQUIDITY\<close> topic and a sequence whose assets resolve, likewise: every
  \<^verbatim>\<open>SPEND/NONE\<close> event addressed to a pool has the subtype \<^verbatim>\<open>RETURN_WRAPPED\<close>,
  every \<^verbatim>\<open>RECEIVE/NONE\<close> event addressed to a pool has become
  \<^verbatim>\<open>WITHDRAWAL/REMOVE_ASSET\<close>, every other event is unchanged, and nothing but the
  events changes.
\<close>

theorem liquidity_reclassification:
  "(topics (tx_log ctx) = ADD_LIQUIDITY_EVENT # more_topics \<and>
    add_liquidity_assets (globaldb s) (decoded_events s) \<longrightarrow>
      (\<exists>db' walked.
         decode_pool_events lib self ctx s =
           (s\<lparr>decoded_events := walked, globaldb := db'\<rparr>, Inr DEFAULT_DECODING_OUTPUT) \<and>
         length walked = length (decoded_events s) \<and>
         (\<forall>i<length (decoded_events s). \<forall>a.
            globaldb s (asset (decoded_events s ! i)) = Some a \<longrightarrow>
            walked ! i =
              add_liquidity_reclassified lib self (tx_log ctx) a (decoded_events s ! i)))) \<and>
   (topics (tx_log ctx) = REMOVE_LIQUIDITY_EVENT # more_topics \<and>
    crypto_assets (globaldb s) (decoded_events s) \<longrightarrow>
      (\<exists>walked.
         decode_pool_events lib self ctx s =
           (s\<lparr>decoded_events := walked\<rparr>, Inr DEFAULT_DECODING_OUTPUT) \<and>
         length walked = length (decoded_events s) \<and>
         (\<forall>i<length (decoded_events s). \<forall>a.
            globaldb s (asset (decoded_events s ! i)) = Some a \<longrightarrow>
            walked ! i =
              remove_liquidity_reclassified lib self (tx_log ctx) a (decoded_events s ! i))))"
proof (intro conjI impI)
  assume h: "topics (tx_log ctx) = ADD_LIQUIDITY_EVENT # more_topics \<and>
    add_liquidity_assets (globaldb s) (decoded_events s)"
  then have t: "topics (tx_log ctx) = ADD_LIQUIDITY_EVENT # more_topics"
    and a: "add_liquidity_assets (globaldb s) (decoded_events s)" by simp_all
  show "\<exists>db' walked.
         decode_pool_events lib self ctx s =
           (s\<lparr>decoded_events := walked, globaldb := db'\<rparr>, Inr DEFAULT_DECODING_OUTPUT) \<and>
         length walked = length (decoded_events s) \<and>
         (\<forall>i<length (decoded_events s). \<forall>a.
            globaldb s (asset (decoded_events s ! i)) = Some a \<longrightarrow>
            walked ! i =
              add_liquidity_reclassified lib self (tx_log ctx) a (decoded_events s ! i))"
    unfolding dispatch_add_liquidity[OF t] using a by (rule decode_add_liquidity_events_ok)
next
  assume h: "topics (tx_log ctx) = REMOVE_LIQUIDITY_EVENT # more_topics \<and>
    crypto_assets (globaldb s) (decoded_events s)"
  then have t: "topics (tx_log ctx) = REMOVE_LIQUIDITY_EVENT # more_topics"
    and a: "crypto_assets (globaldb s) (decoded_events s)" by simp_all
  show "\<exists>walked.
         decode_pool_events lib self ctx s =
           (s\<lparr>decoded_events := walked\<rparr>, Inr DEFAULT_DECODING_OUTPUT) \<and>
         length walked = length (decoded_events s) \<and>
         (\<forall>i<length (decoded_events s). \<forall>a.
            globaldb s (asset (decoded_events s ! i)) = Some a \<longrightarrow>
            walked ! i =
              remove_liquidity_reclassified lib self (tx_log ctx) a (decoded_events s ! i))"
    unfolding dispatch_remove_liquidity[OF t] using a by (rule decode_remove_liquidity_events_ok)
qed

text \<open>
  The theorem at the two transactions of the tests. The spend to the router is not
  addressed to a pool and stays \<^verbatim>\<open>SPEND/NONE\<close>.
\<close>

theorem liquidity_reclassification_witness:
  "decode_pool_events ex_lib ex_self (ex_context [ADD_LIQUIDITY_EVENT])
      (ex_state [ex_gas, ex_spend, ex_deposit, ex_lp_receive])
     = (\<lparr>decoded_events =
           [ex_gas, ex_spend,
            ex_deposit\<lparr>event_type := DEPOSIT, event_subtype := DEPOSIT_ASSET,
              counterparty := Some ''aerodrome'',
              event_notes := Some (''Deposit 0.163519 USDbC in aerodrome pool '' @ ex_pool),
              product := Some POOL\<rparr>,
            ex_lp_receive\<lparr>event_subtype := RECEIVE_WRAPPED,
              counterparty := Some ''aerodrome'',
              event_notes := Some (''Receive 0.000000004023175857 vAMM-WETH/USDbC ''
                @ ''after depositing in aerodrome pool '' @ ex_pool),
              product := Some POOL\<rparr>],
         globaldb = ex_db(''LP'' \<mapsto> \<lparr>asset_type = EVM_TOKEN, symbol = ''vAMM-WETH/USDbC'',
                                     decimals = 18, protocol = Some ''aerodrome_pool''\<rparr>),
         log_errors = []\<rparr>,
        Inr DEFAULT_DECODING_OUTPUT) \<and>
   decode_pool_events ex_lib ex_self (ex_context [REMOVE_LIQUIDITY_EVENT])
      (ex_state [ex_lp_return, ex_gas, ex_withdraw])
     = (ex_state
          [ex_lp_return\<lparr>event_subtype := RETURN_WRAPPED,
             counterparty := Some ''aerodrome'',
             event_notes := Some ''Return 0.000000004023175857 vAMM-WETH/USDbC'',
             product := Some POOL\<rparr>,
           ex_gas,
           ex_withdraw\<lparr>event_type := WITHDRAWAL, event_subtype := REMOVE_ASSET,
             counterparty := Some ''aerodrome'',
             event_notes := Some (''Remove 0.163519 USDbC from aerodrome pool '' @ ex_pool),
             product := Some POOL\<rparr>],
        Inr DEFAULT_DECODING_OUTPUT)"
proof -
  let ?sa = "ex_state [ex_gas, ex_spend, ex_deposit, ex_lp_receive]"
  let ?sr = "ex_state [ex_lp_return, ex_gas, ex_withdraw]"
  have a: "topics (tx_log (ex_context [ADD_LIQUIDITY_EVENT])) = ADD_LIQUIDITY_EVENT # [] \<and>
           add_liquidity_assets (globaldb ?sa) (decoded_events ?sa)"
    by (simp add: ex_defs ex_defs2)
  have r: "topics (tx_log (ex_context [REMOVE_LIQUIDITY_EVENT])) = REMOVE_LIQUIDITY_EVENT # [] \<and>
           crypto_assets (globaldb ?sr) (decoded_events ?sr)"
    by (simp add: ex_defs ex_defs2 ex_defs3)
  from liquidity_reclassification[where ctx = "ex_context [ADD_LIQUIDITY_EVENT]"
      and more_topics = "[]" and s = ?sa and lib = ex_lib and self = ex_self] a
  have "\<exists>db' walked. decode_pool_events ex_lib ex_self (ex_context [ADD_LIQUIDITY_EVENT]) ?sa =
           (?sa\<lparr>decoded_events := walked, globaldb := db'\<rparr>, Inr DEFAULT_DECODING_OUTPUT)"
    by blast
  moreover
  from liquidity_reclassification[where ctx = "ex_context [REMOVE_LIQUIDITY_EVENT]"
      and more_topics = "[]" and s = ?sr and lib = ex_lib and self = ex_self] r
  have "\<exists>walked. decode_pool_events ex_lib ex_self (ex_context [REMOVE_LIQUIDITY_EVENT]) ?sr =
           (?sr\<lparr>decoded_events := walked\<rparr>, Inr DEFAULT_DECODING_OUTPUT)"
    by blast
  ultimately show ?thesis
    by (simp add: ex_defs ex_defs2 ex_defs3 liquidity_eval)
qed

subsection \<open>C6: the refresh flag of the gauge handler\<close>

text \<open>
  C6, as amended. Under the hypotheses of C4 the gauge handler returns normally, and
  the flag \<^verbatim>\<open>refresh_balances\<close> it returns is true if and only if the triple of some
  event of the sequence matches the log. The events after the dispatch are pinned
  one by one: a matching event carries the gauge classification of the topic, every
  other event is what it was; the error log is untouched and the token metadata change
  at most by the tag of the aerodrome pools. So a true flag says that the handler has
  written the gauge classification to some event, not that the event has changed: a
  matching event that carries this classification already is written again, sets the
  flag and stays as it is. When no triple matches, the flag is false and the dispatch
  has changed nothing at all, neither an event nor the token metadata, and raises
  nothing. In the scenario of a \<^verbatim>\<open>GAUGE_DEPOSIT\<close> log with the raw amount 4023175857,
  an asset of 18 decimals and an event of amount 0.000000004023175857 with the account
  and gauge of the log, the flag is true and the event is \<^verbatim>\<open>DEPOSIT/DEPOSIT_ASSET\<close>
  with the product \<^verbatim>\<open>GAUGE\<close>.
\<close>

theorem gauge_refresh_flag:
  assumes "topics (tx_log ctx) = topic0 # topic1 # more_topics"
      and "topic0 \<in> {GAUGE_DEPOSIT, GAUGE_WITHDRAW, CLAIM_REWARDS}"
      and "account = hex_or_bytes_to_address lib topic1"
      and "gauge = log_address (tx_log ctx)"
      and "raw = hex_or_bytes_to_int (data (tx_log ctx))"
      and "gauge_assets (globaldb s) topic0 account gauge raw (decoded_events s)"
  shows "\<exists>s' out.
           decode_gauge_events lib self ctx s = (s', Inr out) \<and>
           refresh_balances out =
             (\<exists>i<length (decoded_events s). \<exists>a.
                globaldb s (asset (decoded_events s ! i)) = Some a \<and>
                gauge_match account gauge raw a (decoded_events s ! i)) \<and>
           (\<not> refresh_balances out \<longrightarrow> s' = s) \<and>
           log_errors s' = log_errors s \<and>
           length (decoded_events s') = length (decoded_events s) \<and>
           (\<forall>i<length (decoded_events s). \<forall>a.
              globaldb s (asset (decoded_events s ! i)) = Some a \<longrightarrow>
              decoded_events s' ! i =
                (if gauge_match account gauge raw a (decoded_events s ! i)
                 then gauge_reclassified lib topic0 gauge a (decoded_events s ! i)
                 else decoded_events s ! i)) \<and>
           (\<forall>x. globaldb s' x = globaldb s x \<or>
              (\<exists>b. globaldb s x = Some b \<and> protocol b = None \<and>
                 globaldb s' x = Some (b\<lparr>protocol := Some AERODROME_POOL_PROTOCOL\<rparr>))) \<and>
           (\<forall>i<length (decoded_events s). \<forall>a.
              topic0 = GAUGE_DEPOSIT \<and> raw = 4023175857 \<and>
              globaldb s (asset (decoded_events s ! i)) = Some a \<and> decimals a = 18 \<and>
              location_label (decoded_events s ! i) = Some account \<and>
              address (decoded_events s ! i) = Some gauge \<and>
              amount (balance (decoded_events s ! i)) = 4023175857 / 1000000000000000000 \<longrightarrow>
              refresh_balances out \<and>
              event_type (decoded_events s' ! i) = DEPOSIT \<and>
              event_subtype (decoded_events s' ! i) = DEPOSIT_ASSET \<and>
              product (decoded_events s' ! i) = Some GAUGE)"
proof -
  let ?hit = "\<exists>e\<in>set (decoded_events s). gauge_hit (globaldb s) account gauge raw e"
  let ?walked = "map (gauge_event lib topic0 (globaldb s) account gauge raw) (decoded_events s)"
  from decode_gauge_events_ok[OF assms(1,2), of s lib self] assms(3-6) obtain db' where
    r: "decode_gauge_events lib self ctx s =
           (s\<lparr>decoded_events := ?walked, globaldb := db'\<rparr>, Inr \<lparr>refresh_balances = ?hit\<rparr>)"
    and tg: "tagged_from (globaldb s) db'"
    and same: "(\<forall>e\<in>set (decoded_events s). \<not> gauge_hit (globaldb s) account gauge raw e)
                 \<longrightarrow> db' = globaldb s"
    by auto
  have flag: "?hit \<longleftrightarrow> (\<exists>i<length (decoded_events s). \<exists>a.
                globaldb s (asset (decoded_events s ! i)) = Some a \<and>
                gauge_match account gauge raw a (decoded_events s ! i))"
    using assms(6) by (intro gauge_hit_iff[where P = "\<lambda>a e. asset_type a \<noteq> FIAT \<and>
        (topic0 = GAUGE_DEPOSIT \<and> gauge_match account gauge raw a e \<longrightarrow> asset_type a = EVM_TOKEN)"])
      simp
  have noop: "\<not> ?hit \<longrightarrow> s\<lparr>decoded_events := ?walked, globaldb := db'\<rparr> = s"
    using same gauge_event_no_hit[of "decoded_events s" "globaldb s" account gauge raw lib topic0]
    by auto
  have pointwise: "\<forall>i<length (decoded_events s). \<forall>a.
              globaldb s (asset (decoded_events s ! i)) = Some a \<longrightarrow>
              ?walked ! i =
                (if gauge_match account gauge raw a (decoded_events s ! i)
                 then gauge_reclassified lib topic0 gauge a (decoded_events s ! i)
                 else decoded_events s ! i)"
  proof (intro allI impI)
    fix i a
    assume "i < length (decoded_events s)" "globaldb s (asset (decoded_events s ! i)) = Some a"
    then show "?walked ! i =
                (if gauge_match account gauge raw a (decoded_events s ! i)
                 then gauge_reclassified lib topic0 gauge a (decoded_events s ! i)
                 else decoded_events s ! i)"
      by (rule gauge_event_nth[where evs = "decoded_events s" and db = "globaldb s"])
  qed
  have tags: "\<forall>x. db' x = globaldb s x \<or>
              (\<exists>b. globaldb s x = Some b \<and> protocol b = None \<and>
                 db' x = Some (b\<lparr>protocol := Some AERODROME_POOL_PROTOCOL\<rparr>))"
    using tg by (simp add: tagged_from_def)
  have scen: "\<forall>i<length (decoded_events s). \<forall>a.
              topic0 = GAUGE_DEPOSIT \<and> raw = 4023175857 \<and>
              globaldb s (asset (decoded_events s ! i)) = Some a \<and> decimals a = 18 \<and>
              location_label (decoded_events s ! i) = Some account \<and>
              address (decoded_events s ! i) = Some gauge \<and>
              amount (balance (decoded_events s ! i)) = 4023175857 / 1000000000000000000 \<longrightarrow>
              ?hit \<and>
              event_type (?walked ! i) = DEPOSIT \<and>
              event_subtype (?walked ! i) = DEPOSIT_ASSET \<and>
              product (?walked ! i) = Some GAUGE"
  proof (intro allI impI)
    fix i a
    assume i: "i < length (decoded_events s)"
    assume h: "topic0 = GAUGE_DEPOSIT \<and> raw = 4023175857 \<and>
              globaldb s (asset (decoded_events s ! i)) = Some a \<and> decimals a = 18 \<and>
              location_label (decoded_events s ! i) = Some account \<and>
              address (decoded_events s ! i) = Some gauge \<and>
              amount (balance (decoded_events s ! i)) = 4023175857 / 1000000000000000000"
    from h have t0: "topic0 = GAUGE_DEPOSIT" and raw: "raw = 4023175857"
      and a: "globaldb s (asset (decoded_events s ! i)) = Some a" and d: "decimals a = 18"
      and who: "location_label (decoded_events s ! i) = Some account"
      and wher: "address (decoded_events s ! i) = Some gauge"
      and amnt: "amount (balance (decoded_events s ! i)) = 4023175857 / 1000000000000000000"
      by simp_all
    have nv: "asset_normalized_value raw a = 4023175857 / 1000000000000000000"
      unfolding raw by (simp add: asset_normalized_value_def d)
    have m: "gauge_match account gauge raw a (decoded_events s ! i)"
      using who wher amnt nv by (simp only: simp_thms)
    from m a i have "?hit" unfolding flag by blast
    moreover from gauge_event_nth[where evs = "decoded_events s" and i = i and db = "globaldb s"
        and a = a and lib = lib and ?topic0.0 = topic0 and account = account and gauge = gauge
        and raw = raw, OF i a] m
    have "?walked ! i = gauge_reclassified lib topic0 gauge a (decoded_events s ! i)"
      by (simp only: if_True simp_thms)
    ultimately show "?hit \<and>
              event_type (?walked ! i) = DEPOSIT \<and>
              event_subtype (?walked ! i) = DEPOSIT_ASSET \<and>
              product (?walked ! i) = Some GAUGE"
      using t0 by simp
  qed
  show ?thesis
    unfolding r using flag noop pointwise tags scen
    by (intro exI[of _ "s\<lparr>decoded_events := ?walked, globaldb := db'\<rparr>"]
          exI[of _ "\<lparr>refresh_balances = ?hit\<rparr>"]) simp
qed

text \<open>
  The theorem at the scenario, with the payload bytes of the raw amount, and at a
  sequence without a matching event.
\<close>

theorem gauge_refresh_flag_witness:
  "snd (decode_gauge_events ex_lib ex_self (ex_gauge_context GAUGE_DEPOSIT)
          (ex_state [ex_gas, ex_stake]))
     = Inr \<lparr>refresh_balances = True\<rparr> \<and>
   decoded_events (fst (decode_gauge_events ex_lib ex_self (ex_gauge_context GAUGE_DEPOSIT)
          (ex_state [ex_gas, ex_stake])))
     = [ex_gas,
        ex_stake\<lparr>event_type := DEPOSIT, event_subtype := DEPOSIT_ASSET,
          counterparty := Some ''aerodrome'', product := Some GAUGE,
          event_notes := Some (''Deposit 0.000000004023175857 vAMM-WETH/USDbC into ''
            @ ex_gauge @ '' aerodrome gauge'')\<rparr>] \<and>
   decode_gauge_events ex_lib ex_self (ex_gauge_context GAUGE_DEPOSIT)
          (ex_state [ex_gas, ex_stake_other])
     = (ex_state [ex_gas, ex_stake_other], Inr \<lparr>refresh_balances = False\<rparr>)"
proof -
  let ?c = "ex_gauge_context GAUGE_DEPOSIT"
  let ?s = "ex_state [ex_gas, ex_stake]"
  let ?n = "ex_state [ex_gas, ex_stake_other]"
  have h1: "topics (tx_log ?c) = GAUGE_DEPOSIT # ex_topic1 # []"
    by (simp add: ex_gauge_context_def)
  have h2: "GAUGE_DEPOSIT \<in> {GAUGE_DEPOSIT, GAUGE_WITHDRAW, CLAIM_REWARDS}" by simp
  have h3: "ex_user = hex_or_bytes_to_address ex_lib ex_topic1" by (simp add: ex_lib_def)
  have h4: "ex_gauge = log_address (tx_log ?c)" by (simp add: ex_gauge_context_def)
  have h5: "4023175857 = hex_or_bytes_to_int (data (tx_log ?c))" by (simp add: ex_raw)
  have h6: "gauge_assets (globaldb ?s) GAUGE_DEPOSIT ex_user ex_gauge 4023175857 (decoded_events ?s)"
    by (simp add: ex_defs ex_defs2)
  have h7: "gauge_assets (globaldb ?n) GAUGE_DEPOSIT ex_user ex_gauge 4023175857 (decoded_events ?n)"
    by (simp add: ex_defs ex_defs2)
  from gauge_refresh_flag[OF h1 h2 h3 h4 h5 h6, of ex_self]
  have "\<exists>s' out. decode_gauge_events ex_lib ex_self ?c ?s = (s', Inr out)" by blast
  moreover from gauge_refresh_flag[OF h1 h2 h3 h4 h5 h7, of ex_self]
  have "\<exists>s' out. decode_gauge_events ex_lib ex_self ?c ?n = (s', Inr out)" by blast
  ultimately show ?thesis
    by (simp add: ex_defs ex_defs2 gauge_eval)
qed

text \<open>
  C6 as stated fails. A \<^verbatim>\<open>GAUGE_WITHDRAW\<close> log is dispatched on a gas event and the
  liquidity token that comes back from the gauge: the token event is classified and the
  flag is true. The same log dispatched on the resulting sequence, as happens when a
  transaction holds two such logs, finds the event matching again and returns a true
  flag, while the state it leaves is the state it got: no event was modified.
\<close>

theorem gauge_refresh_flag_counterexample:
  "decode_gauge_events ex_lib ex_self (ex_gauge_context GAUGE_WITHDRAW)
          (ex_state [ex_gas, ex_unstake])
     = (ex_state [ex_gas, ex_unstaked], Inr \<lparr>refresh_balances = True\<rparr>) \<and>
   decode_gauge_events ex_lib ex_self (ex_gauge_context GAUGE_WITHDRAW)
          (ex_state [ex_gas, ex_unstaked])
     = (ex_state [ex_gas, ex_unstaked], Inr \<lparr>refresh_balances = True\<rparr>)"
  by (simp add: ex_defs ex_defs2 ex_defs4 gauge_eval)

subsection \<open>C7: the protocol tag is written once\<close>

text \<open>
  C7. Whatever the log and the events, and whether the handler returns or raises: an
  asset that carries a protocol tag before a dispatch of the pool handlers or of the
  gauge handler has the same metadata after it; the metadata of an asset changes only
  by going from no tag to the tag of the aerodrome pools. The tagging operation leaves
  the store as it is when the token has a tag, and sets the tag when it has none.
\<close>

theorem protocol_tag_write_once:
  "(globaldb s x = Some a \<and> protocol a = Some p \<longrightarrow>
      globaldb (fst (decode_pool_events lib self ctx s)) x = Some a \<and>
      globaldb (fst (decode_gauge_events lib self ctx s)) x = Some a) \<and>
   (globaldb (fst (decode_pool_events lib self ctx s)) x = globaldb s x \<or>
      (\<exists>b. globaldb s x = Some b \<and> protocol b = None \<and>
         globaldb (fst (decode_pool_events lib self ctx s)) x =
           Some (b\<lparr>protocol := Some AERODROME_POOL_PROTOCOL\<rparr>))) \<and>
   (globaldb (fst (decode_gauge_events lib self ctx s)) x = globaldb s x \<or>
      (\<exists>b. globaldb s x = Some b \<and> protocol b = None \<and>
         globaldb (fst (decode_gauge_events lib self ctx s)) x =
           Some (b\<lparr>protocol := Some AERODROME_POOL_PROTOCOL\<rparr>))) \<and>
   (db x = Some a \<and> protocol a = Some p \<longrightarrow> set_token_protocol_if_missing db x q = db) \<and>
   (db x = Some a \<and> protocol a = None \<longrightarrow>
      set_token_protocol_if_missing db x q = db(x \<mapsto> a\<lparr>protocol := Some q\<rparr>))"
proof -
  have pool: "globaldb (fst (decode_pool_events lib self ctx s)) x = globaldb s x \<or>
      (\<exists>b. globaldb s x = Some b \<and> protocol b = None \<and>
         globaldb (fst (decode_pool_events lib self ctx s)) x =
           Some (b\<lparr>protocol := Some AERODROME_POOL_PROTOCOL\<rparr>))"
    using decode_pool_events_tagged[of s lib self ctx] by (simp add: tagged_from_def)
  have gauge: "globaldb (fst (decode_gauge_events lib self ctx s)) x = globaldb s x \<or>
      (\<exists>b. globaldb s x = Some b \<and> protocol b = None \<and>
         globaldb (fst (decode_gauge_events lib self ctx s)) x =
           Some (b\<lparr>protocol := Some AERODROME_POOL_PROTOCOL\<rparr>))"
    using decode_gauge_events_tagged[of s lib self ctx] by (simp add: tagged_from_def)
  have kept: "globaldb s x = Some a \<and> protocol a = Some p \<longrightarrow>
      globaldb (fst (decode_pool_events lib self ctx s)) x = Some a \<and>
      globaldb (fst (decode_gauge_events lib self ctx s)) x = Some a"
    using pool gauge by auto
  have set1: "db x = Some a \<and> protocol a = Some p \<longrightarrow> set_token_protocol_if_missing db x q = db"
    by (simp add: set_token_protocol_if_missing_def)
  have set2: "db x = Some a \<and> protocol a = None \<longrightarrow>
      set_token_protocol_if_missing db x q = db(x \<mapsto> a\<lparr>protocol := Some q\<rparr>)"
    by (simp add: set_token_protocol_if_missing_def)
  from kept pool gauge set1 set2 show ?thesis by blast
qed

text \<open>
  The theorem at an add-liquidity log with two minted liquidity tokens: the one tagged
  by another protocol keeps its tag, the untagged one gets the tag of the aerodrome
  pools.
\<close>

theorem protocol_tag_write_once_witness:
  "globaldb (fst (decode_pool_events ex_lib ex_self (ex_context [ADD_LIQUIDITY_EVENT])
      \<lparr>decoded_events = [ex_other_lp_receive, ex_lp_receive], globaldb = ex_db_tagged,
        log_errors = []\<rparr>)) ''CRV_LP''
     = Some \<lparr>asset_type = EVM_TOKEN, symbol = ''crvLP'', decimals = 18,
             protocol = Some ''curve_pool''\<rparr> \<and>
   globaldb (fst (decode_pool_events ex_lib ex_self (ex_context [ADD_LIQUIDITY_EVENT])
      \<lparr>decoded_events = [ex_other_lp_receive, ex_lp_receive], globaldb = ex_db_tagged,
        log_errors = []\<rparr>)) ''LP''
     = Some \<lparr>asset_type = EVM_TOKEN, symbol = ''vAMM-WETH/USDbC'', decimals = 18,
             protocol = Some ''aerodrome_pool''\<rparr>"
proof -
  let ?s = "\<lparr>decoded_events = [ex_other_lp_receive, ex_lp_receive], globaldb = ex_db_tagged,
        log_errors = []\<rparr>"
  let ?a = "\<lparr>asset_type = EVM_TOKEN, symbol = ''crvLP'', decimals = 18,
             protocol = Some ''curve_pool''\<rparr>"
  have h: "globaldb ?s ''CRV_LP'' = Some ?a \<and> protocol ?a = Some ''curve_pool''"
    by (simp add: ex_db_tagged_def)
  from protocol_tag_write_once[where s = ?s and x = "''CRV_LP''" and a = ?a
      and p = "''curve_pool''" and lib = ex_lib and self = ex_self
      and ctx = "ex_context [ADD_LIQUIDITY_EVENT]"] h
  have "globaldb (fst (decode_pool_events ex_lib ex_self (ex_context [ADD_LIQUIDITY_EVENT]) ?s))
          ''CRV_LP'' = Some ?a"
    by blast
  then show ?thesis
    by (simp add: ex_defs ex_defs2 ex_defs3 liquidity_eval)
qed

subsection \<open>C8: running the swap handler again\<close>

text \<open>
  C8. A pool log with the \<^verbatim>\<open>SWAP\<close> topic is dispatched on a sequence in which no
  event has the shape \<^verbatim>\<open>SPEND/NONE\<close> or \<^verbatim>\<open>RECEIVE/NONE\<close> with a protocol address:
  the scan ends with no spend and no receive event in hand and with the sequence as it
  was, and the dispatch leaves every event and the token metadata unchanged. A sequence
  on which the dispatch has run (its assets resolving) is such a sequence: a second
  dispatch does not change its events.
\<close>

theorem swap_rerun_no_candidates:
  assumes "topics (tx_log ctx) = SWAP # more_topics"
  shows "((\<forall>e\<in>set (decoded_events s). \<not> spend_candidate self e \<and> \<not> receive_candidate self e) \<longrightarrow>
           (\<exists>r. for_events (swap_body lib self (globaldb s)) (None, None) 0 (decoded_events s)
                  = ((None, None), decoded_events s, r)) \<and>
           decoded_events (fst (decode_pool_events lib self ctx s)) = decoded_events s \<and>
           globaldb (fst (decode_pool_events lib self ctx s)) = globaldb s) \<and>
         (crypto_assets (globaldb s) (decoded_events s) \<longrightarrow>
           decoded_events (fst (decode_pool_events lib self ctx
              (fst (decode_pool_events lib self ctx s)))) =
           decoded_events (fst (decode_pool_events lib self ctx s)))"
proof (intro conjI impI)
  assume nc: "\<forall>e\<in>set (decoded_events s). \<not> spend_candidate self e \<and> \<not> receive_candidate self e"
  show "\<exists>r. for_events (swap_body lib self (globaldb s)) (None, None) 0 (decoded_events s)
                  = ((None, None), decoded_events s, r)"
    using nc by (rule decode_swap_no_candidates(1))
  show "decoded_events (fst (decode_pool_events lib self ctx s)) = decoded_events s"
    unfolding dispatch_swap[OF assms] using nc by (rule decode_swap_no_candidates(2))
  show "globaldb (fst (decode_pool_events lib self ctx s)) = globaldb s"
    unfolding dispatch_swap[OF assms] using nc by (rule decode_swap_no_candidates(3))
next
  assume ca: "crypto_assets (globaldb s) (decoded_events s)"
  show "decoded_events (fst (decode_pool_events lib self ctx
              (fst (decode_pool_events lib self ctx s)))) =
           decoded_events (fst (decode_pool_events lib self ctx s))"
    unfolding dispatch_swap[OF assms]
    using decode_swap_leaves_no_candidates[OF ca] by (rule decode_swap_no_candidates(2))
qed

text \<open>
  The theorem at the test's swap: the first dispatch classifies the pair, the second
  finds no candidate and changes nothing.
\<close>

theorem swap_rerun_no_candidates_witness:
  "decode_pool_events ex_lib ex_self (ex_context [SWAP]) (ex_state [ex_gas, ex_spend, ex_receive])
     = (ex_state ex_classified, Inr DEFAULT_DECODING_OUTPUT) \<and>
   decoded_events (fst (decode_pool_events ex_lib ex_self (ex_context [SWAP])
      (ex_state ex_classified))) = ex_classified \<and>
   fst (for_events (swap_body ex_lib ex_self ex_db) (None, None) 0 ex_classified) = (None, None)"
proof -
  have h1: "topics (tx_log (ex_context [SWAP])) = SWAP # []" by (simp add: ex_context_def)
  have h2: "\<forall>e\<in>set (decoded_events (ex_state ex_classified)).
              \<not> spend_candidate ex_self e \<and> \<not> receive_candidate ex_self e"
    by (simp add: ex_defs)
  have h3: "crypto_assets (globaldb (ex_state [ex_gas, ex_spend, ex_receive]))
              (decoded_events (ex_state [ex_gas, ex_spend, ex_receive]))"
    by (simp add: ex_defs)
  have run: "decode_pool_events ex_lib ex_self (ex_context [SWAP])
      (ex_state [ex_gas, ex_spend, ex_receive]) = (ex_state ex_classified, Inr DEFAULT_DECODING_OUTPUT)"
    by (simp add: ex_defs swap_eval)
  from swap_rerun_no_candidates[OF h1, where s = "ex_state ex_classified" and self = ex_self
      and lib = ex_lib] h2
  have a: "(\<exists>r. for_events (swap_body ex_lib ex_self (globaldb (ex_state ex_classified)))
                  (None, None) 0 (decoded_events (ex_state ex_classified))
                  = ((None, None), decoded_events (ex_state ex_classified), r)) \<and>
           decoded_events (fst (decode_pool_events ex_lib ex_self (ex_context [SWAP])
             (ex_state ex_classified))) = decoded_events (ex_state ex_classified)"
    by blast
  from swap_rerun_no_candidates[OF h1, where s = "ex_state [ex_gas, ex_spend, ex_receive]"
      and self = ex_self and lib = ex_lib] h3
  have b: "decoded_events (fst (decode_pool_events ex_lib ex_self (ex_context [SWAP])
              (fst (decode_pool_events ex_lib ex_self (ex_context [SWAP])
                 (ex_state [ex_gas, ex_spend, ex_receive]))))) =
           decoded_events (fst (decode_pool_events ex_lib ex_self (ex_context [SWAP])
              (ex_state [ex_gas, ex_spend, ex_receive])))"
    by blast
  from a b run show ?thesis by (auto simp: ex_state_def)
qed

subsection \<open>C9: an unresolvable asset is a hard error\<close>

text \<open>
  C9. Let an event \<open>e\<close> of the sequence have an asset that is unknown or of the wrong
  kind. Every handler that walks the sequence (add liquidity, remove liquidity and
  swap behind the pool dispatch, and the gauge handler on one of its three topics) then
  ends with an error, which it returns to its caller, and the event \<open>e\<close> and all events
  after it are as they were before the dispatch: the walk does not skip \<open>e\<close> and go on.
\<close>

theorem unresolvable_asset_aborts:
  assumes "decoded_events s = pre @ e # post"
      and "globaldb s (asset e) = None \<or>
           (\<exists>a. globaldb s (asset e) = Some a \<and> asset_type a = FIAT)"
  shows "(topics (tx_log ctx) = topic0 # more_topics \<and>
          topic0 \<in> {ADD_LIQUIDITY_EVENT, REMOVE_LIQUIDITY_EVENT, SWAP} \<longrightarrow>
            (\<exists>err. snd (decode_pool_events lib self ctx s) = Inl err) \<and>
            drop (length pre) (decoded_events (fst (decode_pool_events lib self ctx s)))
              = e # post) \<and>
         (topics (tx_log ctx) = topic0 # topic1 # more_topics' \<and>
          topic0 \<in> {GAUGE_DEPOSIT, GAUGE_WITHDRAW, CLAIM_REWARDS} \<longrightarrow>
            (\<exists>err. snd (decode_gauge_events lib self ctx s) = Inl err) \<and>
            drop (length pre) (decoded_events (fst (decode_gauge_events lib self ctx s)))
              = e # post)"
proof -
  from assms(2) obtain err where un: "resolve_to_crypto_asset (globaldb s) (asset e) = Inl err"
    unfolding resolve_crypto_unresolvable by blast
  show ?thesis
    using decode_pool_events_abort[OF _ _ assms(1) un, of ctx topic0 more_topics lib self]
      decode_gauge_events_abort[OF _ _ assms(1) un, of ctx topic0 topic1 more_topics' lib self]
    by blast
qed

text \<open>
  The theorem at a swap and at a gauge withdrawal, each with an event of unknown asset:
  the receive leg and the staked event behind it are not reclassified.
\<close>

theorem unresolvable_asset_aborts_witness:
  "decode_pool_events ex_lib ex_self (ex_context [SWAP]) (ex_state [ex_spend, ex_unknown, ex_receive])
     = (ex_state
          [ex_spend\<lparr>event_type := TRADE, event_subtype := SPEND_sub,
             counterparty := Some ''aerodrome'',
             event_notes := Some ''Swap 0.0001 ETH in aerodrome''\<rparr>,
           ex_unknown, ex_receive],
        Inl (UnknownAsset ''XYZ'')) \<and>
   decode_gauge_events ex_lib ex_self (ex_gauge_context GAUGE_WITHDRAW)
      (ex_state [ex_unknown, ex_stake])
     = (ex_state [ex_unknown, ex_stake], Inl (UnknownAsset ''XYZ''))"
proof -
  let ?s = "ex_state [ex_spend, ex_unknown, ex_receive]"
  let ?g = "ex_state [ex_unknown, ex_stake]"
  have e1: "decoded_events ?s = [ex_spend] @ ex_unknown # [ex_receive]" by (simp add: ex_state_def)
  have u1: "globaldb ?s (asset ex_unknown) = None \<or>
           (\<exists>a. globaldb ?s (asset ex_unknown) = Some a \<and> asset_type a = FIAT)"
    by (simp add: ex_defs ex_defs2)
  have e2: "decoded_events ?g = [] @ ex_unknown # [ex_stake]" by (simp add: ex_state_def)
  have u2: "globaldb ?g (asset ex_unknown) = None \<or>
           (\<exists>a. globaldb ?g (asset ex_unknown) = Some a \<and> asset_type a = FIAT)"
    by (simp add: ex_defs ex_defs2)
  have t1: "topics (tx_log (ex_context [SWAP])) = SWAP # [] \<and>
            SWAP \<in> {ADD_LIQUIDITY_EVENT, REMOVE_LIQUIDITY_EVENT, SWAP}"
    by (simp add: ex_context_def)
  have t2: "topics (tx_log (ex_gauge_context GAUGE_WITHDRAW)) = GAUGE_WITHDRAW # ex_topic1 # [] \<and>
            GAUGE_WITHDRAW \<in> {GAUGE_DEPOSIT, GAUGE_WITHDRAW, CLAIM_REWARDS}"
    by (simp add: ex_gauge_context_def)
  from unresolvable_asset_aborts[OF e1 u1, where ctx = "ex_context [SWAP]"
      and ?topic0.0 = SWAP and more_topics = "[]" and lib = ex_lib and self = ex_self] t1
  have "\<exists>err. snd (decode_pool_events ex_lib ex_self (ex_context [SWAP]) ?s) = Inl err"
    by blast
  moreover
  from unresolvable_asset_aborts[OF e2 u2, where ctx = "ex_gauge_context GAUGE_WITHDRAW"
      and ?topic0.0 = GAUGE_WITHDRAW and ?topic1.0 = ex_topic1 and more_topics' = "[]"
      and lib = ex_lib and self = ex_self] t2
  have "\<exists>err. snd (decode_gauge_events ex_lib ex_self (ex_gauge_context GAUGE_WITHDRAW) ?g) = Inl err"
    by blast
  ultimately show ?thesis
    by (simp add: ex_defs ex_defs2 swap_eval gauge_eval)
qed

subsection \<open>C10: the asset is resolved first, and nothing is rolled back\<close>

text \<open>
  C10. Let the sequence be \<open>pre\<close>, then an event \<open>e\<close> whose asset does not resolve, then
  \<open>post\<close>; nothing is assumed about the type, subtype or address of \<open>e\<close>. If the
  handler completes on \<open>pre\<close> alone and leaves the state \<open>s1\<close>, then on the whole
  sequence it raises the resolution error of \<open>e\<close> and leaves the state \<open>s1\<close> with \<open>e\<close>
  and \<open>post\<close> appended: the events of \<open>pre\<close> keep the classification (and the tokens the
  tags) they have got. This holds for the add-liquidity, remove-liquidity and gauge
  handlers; for the swap handler, whose scan is followed by the reshuffle, the events
  of \<open>pre\<close> are as the scan reclassifies them.
\<close>

theorem error_mid_walk_keeps_prefix:
  assumes "decoded_events s = pre @ e # post"
      and "resolve_to_crypto_asset (globaldb s) (asset e) = Inl err"
  shows "(topics (tx_log ctx) = topic0 # more_topics \<and>
          topic0 \<in> {ADD_LIQUIDITY_EVENT, REMOVE_LIQUIDITY_EVENT} \<and>
          decode_pool_events lib self ctx (s\<lparr>decoded_events := pre\<rparr>) = (s1, Inr out) \<longrightarrow>
            decode_pool_events lib self ctx s =
              (s1\<lparr>decoded_events := decoded_events s1 @ e # post\<rparr>, Inl err)) \<and>
         (topics (tx_log ctx) = topic0 # topic1 # more_topics' \<and>
          topic0 \<in> {GAUGE_DEPOSIT, GAUGE_WITHDRAW, CLAIM_REWARDS} \<and>
          decode_gauge_events lib self ctx (s\<lparr>decoded_events := pre\<rparr>) = (s1, Inr out) \<longrightarrow>
            decode_gauge_events lib self ctx s =
              (s1\<lparr>decoded_events := decoded_events s1 @ e # post\<rparr>, Inl err)) \<and>
         (topics (tx_log ctx) = SWAP # more_topics \<and> crypto_assets (globaldb s) pre \<longrightarrow>
            (\<exists>walked.
               decode_pool_events lib self ctx s =
                 (s\<lparr>decoded_events := walked @ e # post\<rparr>, Inl err) \<and>
               length walked = length pre \<and>
               (\<forall>i<length pre. \<forall>a. globaldb s (asset (pre ! i)) = Some a \<longrightarrow>
                  walked ! i = swap_reclassified lib self a (pre ! i))))"
proof (intro conjI impI)
  assume h: "topics (tx_log ctx) = topic0 # more_topics \<and>
          topic0 \<in> {ADD_LIQUIDITY_EVENT, REMOVE_LIQUIDITY_EVENT} \<and>
          decode_pool_events lib self ctx (s\<lparr>decoded_events := pre\<rparr>) = (s1, Inr out)"
  then have tp: "topics (tx_log ctx) = topic0 # more_topics"
    and ok: "decode_pool_events lib self ctx (s\<lparr>decoded_events := pre\<rparr>) = (s1, Inr out)"
    by simp_all
  from h consider (add) "topic0 = ADD_LIQUIDITY_EVENT" | (rem) "topic0 = REMOVE_LIQUIDITY_EVENT"
    by blast
  then show "decode_pool_events lib self ctx s =
              (s1\<lparr>decoded_events := decoded_events s1 @ e # post\<rparr>, Inl err)"
  proof cases
    case add
    note d = dispatch_add_liquidity[OF tp[unfolded add]]
    from ok show ?thesis unfolding d
      by (rule decode_add_liquidity_events_prefix[OF assms])
  next
    case rem
    note d = dispatch_remove_liquidity[OF tp[unfolded rem]]
    from ok show ?thesis unfolding d
      by (rule decode_remove_liquidity_events_prefix[OF assms])
  qed
next
  assume h: "topics (tx_log ctx) = topic0 # topic1 # more_topics' \<and>
          topic0 \<in> {GAUGE_DEPOSIT, GAUGE_WITHDRAW, CLAIM_REWARDS} \<and>
          decode_gauge_events lib self ctx (s\<lparr>decoded_events := pre\<rparr>) = (s1, Inr out)"
  then show "decode_gauge_events lib self ctx s =
              (s1\<lparr>decoded_events := decoded_events s1 @ e # post\<rparr>, Inl err)"
    using decode_gauge_events_prefix[OF _ _ assms,
        of ctx topic0 topic1 more_topics' lib self s1 out]
    by blast
next
  assume h: "topics (tx_log ctx) = SWAP # more_topics \<and> crypto_assets (globaldb s) pre"
  then have tp: "topics (tx_log ctx) = SWAP # more_topics"
    and ca: "crypto_assets (globaldb s) pre" by simp_all
  show "\<exists>walked.
               decode_pool_events lib self ctx s =
                 (s\<lparr>decoded_events := walked @ e # post\<rparr>, Inl err) \<and>
               length walked = length pre \<and>
               (\<forall>i<length pre. \<forall>a. globaldb s (asset (pre ! i)) = Some a \<longrightarrow>
                  walked ! i = swap_reclassified lib self a (pre ! i))"
    unfolding dispatch_swap[OF tp]
    using decode_swap_prefix[OF assms ca, of lib self ctx] swap_walk_nth[OF ca]
    by (intro exI[of _ "map (swap_event lib self (globaldb s)) pre"]) simp
qed

text \<open>
  The theorem at an add-liquidity log: the deposit before the failing event stays
  \<^verbatim>\<open>DEPOSIT/DEPOSIT_ASSET\<close>; the failing event is an approval, which matches no
  reclassification condition.
\<close>

theorem error_mid_walk_keeps_prefix_witness:
  "decode_pool_events ex_lib ex_self (ex_context [ADD_LIQUIDITY_EVENT])
      (ex_state [ex_deposit, ex_unknown, ex_lp_receive])
     = (ex_state
          [ex_deposit\<lparr>event_type := DEPOSIT, event_subtype := DEPOSIT_ASSET,
             counterparty := Some ''aerodrome'',
             event_notes := Some (''Deposit 0.163519 USDbC in aerodrome pool '' @ ex_pool),
             product := Some POOL\<rparr>,
           ex_unknown, ex_lp_receive],
        Inl (UnknownAsset ''XYZ''))"
proof -
  let ?s = "ex_state [ex_deposit, ex_unknown, ex_lp_receive]"
  let ?c = "ex_context [ADD_LIQUIDITY_EVENT]"
  let ?s1 = "ex_state
          [ex_deposit\<lparr>event_type := DEPOSIT, event_subtype := DEPOSIT_ASSET,
             counterparty := Some ''aerodrome'',
             event_notes := Some (''Deposit 0.163519 USDbC in aerodrome pool '' @ ex_pool),
             product := Some POOL\<rparr>]"
  have e: "decoded_events ?s = [ex_deposit] @ ex_unknown # [ex_lp_receive]"
    by (simp add: ex_state_def)
  have u: "resolve_to_crypto_asset (globaldb ?s) (asset ex_unknown) = Inl (UnknownAsset ''XYZ'')"
    by (simp add: ex_defs ex_defs2 resolve_to_crypto_asset_def)
  have p: "topics (tx_log ?c) = ADD_LIQUIDITY_EVENT # [] \<and>
           ADD_LIQUIDITY_EVENT \<in> {ADD_LIQUIDITY_EVENT, REMOVE_LIQUIDITY_EVENT} \<and>
           decode_pool_events ex_lib ex_self ?c (?s\<lparr>decoded_events := [ex_deposit]\<rparr>)
             = (?s1, Inr DEFAULT_DECODING_OUTPUT)"
    by (simp add: ex_defs ex_defs2 liquidity_eval)
  from error_mid_walk_keeps_prefix[OF e u, where ctx = ?c and ?topic0.0 = ADD_LIQUIDITY_EVENT
      and more_topics = "[]" and lib = ex_lib and self = ex_self and ?s1.0 = ?s1
      and out = DEFAULT_DECODING_OUTPUT] p
  have "decode_pool_events ex_lib ex_self ?c ?s =
          (?s1\<lparr>decoded_events := decoded_events ?s1 @ ex_unknown # [ex_lp_receive]\<rparr>,
           Inl (UnknownAsset ''XYZ''))"
    by blast
  then show ?thesis by (simp add: ex_state_def)
qed

end
